theory Spec2Isabelle
  imports Main "HOL-Library.Word" "HOL-Library.Multiset" "HOL-Library.Code_Target_Nat"
begin

unbundle bit_operations_syntax

section \<open>Heap snapshot analysis engine (HeapSnapshot.ts)\<close>

text \<open>
  A shallow embedding of the post-load pipeline of
  \<^verbatim>\<open>front_end/entrypoints/heap_snapshot_worker/HeapSnapshot.ts\<close>.

  Conventions.
  \<^item> The flat typed arrays \<^verbatim>\<open>nodes\<close>, \<^verbatim>\<open>containmentEdges\<close> and every derived
    \<^verbatim>\<open>Uint32Array\<close> are lists of naturals. A write beyond the end of a typed array is
    dropped by JavaScript, which is what \<open>xs[i := v]\<close> does in HOL. A read beyond the
    end yields \<^verbatim>\<open>undefined\<close> in JavaScript and is unspecified for \<open>xs ! i\<close>; where the
    source can perform such a read on a well-formed snapshot the model writes the
    outcome out, everywhere else the theorems carry the range hypotheses.
  \<^item> Counters and indexes stored into \<^verbatim>\<open>Uint32Array\<close>s are bounded by the lengths of
    the node and edge arrays; the model keeps them as unbounded naturals.
  \<^item> JavaScript numbers that hold sizes are sums of 32-bit fields and are modelled as
    naturals (differences as integers).
  \<^item> Strings are the UTF-8 encodings of the JavaScript strings: one \<open>char\<close> is one
    byte. The code points the source distinguishes beyond ASCII (line terminators,
    white space) are recognised by their encodings.
  \<^item> A thrown \<^verbatim>\<open>Error\<close> is a value of type \<open>error\<close> on the left of a sum; a loop
    that may run forever returns an \<open>option\<close>, \<open>None\<close> meaning that it does not return.
\<close>

subsection \<open>Errors\<close>

datatype error =
    InvalidToNodeIndex nat
  | BFSFailed nat nat
  | TooManyNodesForCalculateShallowSizes
  | RootNodeIsExpectedToBeEitherFirstOrLast
  | InvalidTypedArrayLength

subsection \<open>The snapshot object\<close>

text \<open>
  The fields of class \<^verbatim>\<open>HeapSnapshot\<close> (and of \<^verbatim>\<open>JSHeapSnapshot\<close>, its only concrete
  subclass) that the analysis passes read or write. \<open>node_fields\<close>, \<open>edge_fields\<close> are
  \<^verbatim>\<open>meta.node_fields\<close> and \<^verbatim>\<open>meta.edge_fields\<close>; \<open>node_types\<close> and \<open>edge_types\<close> are
  the enumerations \<^verbatim>\<open>meta.node_types[nodeTypeOffset]\<close> and
  \<^verbatim>\<open>meta.edge_types[edgeTypeOffset]\<close> as loaded. An offset or a type code is \<open>-1\<close>
  when the meta information does not list the name.
\<close>

record snapshot =
  nodes :: "nat list"
  containmentEdges :: "nat list"
  strings :: "string list"
  node_fields :: "string list"
  node_types :: "string list"
  edge_fields :: "string list"
  edge_types :: "string list"
  rootNodeIndexInternal :: nat
  nodeTypeOffset :: int
  nodeNameOffset :: int
  nodeIdOffset :: int
  nodeSelfSizeOffset :: int
  nodeEdgeCountOffset :: int
  nodeDetachednessAndClassIndexOffset :: int
  nodeFieldCount :: nat
  nodeArrayType :: int
  nodeHiddenType :: int
  nodeNativeType :: int
  nodeConsStringType :: int
  nodeSyntheticType :: int
  edgeFieldsCount :: nat
  edgeTypeOffset :: int
  edgeNameOffset :: int
  edgeToNodeOffset :: int
  edgeTypes :: "string list"
  edgeElementType :: int
  edgeHiddenType :: int
  edgeInternalType :: int
  edgeShortcutType :: int
  edgeWeakType :: int
  edgeInvisibleType :: int
  firstEdgeIndexes :: "nat list"
  retainingNodes :: "nat list"
  retainingEdges :: "nat list"
  firstRetainerIndex :: "nat list"
  nodeDistances :: "int list"
  flags :: "nat list"
  dominatorsTree :: "nat list"
  retainedSizes :: "nat list"
  firstDominatedNodeIndex :: "nat list"
  dominatedNodes :: "nat list"

text \<open>\<^verbatim>\<open>Array.prototype.indexOf\<close>: the first position of the element, \<open>-1\<close> when absent.\<close>

fun indexOf :: "'a list \<Rightarrow> 'a \<Rightarrow> int" where
  "indexOf [] x = - 1"
| "indexOf (y # ys) x =
     (if y = x then 0 else (let r = indexOf ys x in if r < 0 then - 1 else r + 1))"

text \<open>
  The first part of \<^verbatim>\<open>initialize()\<close>: the offsets, field counts and type codes
  read from the meta information. \<^verbatim>\<open>edgeTypes\<close> is the loaded enumeration with
  \<^verbatim>\<open>'invisible'\<close> pushed onto it.
\<close>

definition readMeta :: "snapshot \<Rightarrow> snapshot" where
  "readMeta s =
     s\<lparr>nodeTypeOffset := indexOf (node_fields s) ''type'',
       nodeNameOffset := indexOf (node_fields s) ''name'',
       nodeIdOffset := indexOf (node_fields s) ''id'',
       nodeSelfSizeOffset := indexOf (node_fields s) ''self_size'',
       nodeEdgeCountOffset := indexOf (node_fields s) ''edge_count'',
       nodeDetachednessAndClassIndexOffset := indexOf (node_fields s) ''detachedness'',
       nodeFieldCount := length (node_fields s),
       nodeArrayType := indexOf (node_types s) ''array'',
       nodeHiddenType := indexOf (node_types s) ''hidden'',
       nodeNativeType := indexOf (node_types s) ''native'',
       nodeConsStringType := indexOf (node_types s) ''concatenated string'',
       nodeSyntheticType := indexOf (node_types s) ''synthetic'',
       edgeFieldsCount := length (edge_fields s),
       edgeTypeOffset := indexOf (edge_fields s) ''type'',
       edgeNameOffset := indexOf (edge_fields s) ''name_or_index'',
       edgeToNodeOffset := indexOf (edge_fields s) ''to_node'',
       edgeTypes := edge_types s @ [''invisible''],
       edgeElementType := indexOf (edge_types s @ [''invisible'']) ''element'',
       edgeHiddenType := indexOf (edge_types s @ [''invisible'']) ''hidden'',
       edgeInternalType := indexOf (edge_types s @ [''invisible'']) ''internal'',
       edgeShortcutType := indexOf (edge_types s @ [''invisible'']) ''shortcut'',
       edgeWeakType := indexOf (edge_types s @ [''invisible'']) ''weak'',
       edgeInvisibleType := indexOf (edge_types s @ [''invisible'']) ''invisible''\<rparr>"

text \<open>The edge type codes are positions in one enumeration, as \<^verbatim>\<open>initialize()\<close> sets them.\<close>

definition edgeTypeCodes :: "snapshot \<Rightarrow> bool" where
  "edgeTypeCodes s =
     (edgeElementType s = indexOf (edgeTypes s) ''element''
      \<and> edgeHiddenType s = indexOf (edgeTypes s) ''hidden''
      \<and> edgeInternalType s = indexOf (edgeTypes s) ''internal''
      \<and> edgeShortcutType s = indexOf (edgeTypes s) ''shortcut''
      \<and> edgeWeakType s = indexOf (edgeTypes s) ''weak''
      \<and> edgeInvisibleType s = indexOf (edgeTypes s) ''invisible'')"

text \<open>
  \<^verbatim>\<open>this.nodeCount = this.nodes.length / this.nodeFieldCount\<close> and the same for edges;
  the lengths are multiples of the field counts in a well-formed snapshot.
\<close>

definition nodeCount :: "snapshot \<Rightarrow> nat" where
  "nodeCount s = length (nodes s) div nodeFieldCount s"

definition edgeCount :: "snapshot \<Rightarrow> nat" where
  "edgeCount s = length (containmentEdges s) div edgeFieldsCount s"

text \<open>\<^verbatim>\<open>getValue\<close> of the packed arrays, at an index plus a field offset.\<close>

definition getValue :: "nat list \<Rightarrow> int \<Rightarrow> nat" where
  "getValue arr i = arr ! nat i"

definition setValue :: "nat list \<Rightarrow> int \<Rightarrow> nat \<Rightarrow> nat list" where
  "setValue arr i v = (if 0 \<le> i then arr[nat i := v] else arr)"

definition edgeRawType :: "snapshot \<Rightarrow> nat \<Rightarrow> nat" where
  "edgeRawType s edgeIndex = getValue (containmentEdges s) (int edgeIndex + edgeTypeOffset s)"

definition edgeNameOrIndex :: "snapshot \<Rightarrow> nat \<Rightarrow> nat" where
  "edgeNameOrIndex s edgeIndex = getValue (containmentEdges s) (int edgeIndex + edgeNameOffset s)"

definition edgeNodeIndex :: "snapshot \<Rightarrow> nat \<Rightarrow> nat" where
  "edgeNodeIndex s edgeIndex = getValue (containmentEdges s) (int edgeIndex + edgeToNodeOffset s)"

definition nodeRawType :: "snapshot \<Rightarrow> nat \<Rightarrow> nat" where
  "nodeRawType s nodeIndex = getValue (nodes s) (int nodeIndex + nodeTypeOffset s)"

definition nodeNameIndex :: "snapshot \<Rightarrow> nat \<Rightarrow> nat" where
  "nodeNameIndex s nodeIndex = getValue (nodes s) (int nodeIndex + nodeNameOffset s)"

definition nodeId :: "snapshot \<Rightarrow> nat \<Rightarrow> nat" where
  "nodeId s nodeIndex = getValue (nodes s) (int nodeIndex + nodeIdOffset s)"

definition nodeSelfSize :: "snapshot \<Rightarrow> nat \<Rightarrow> nat" where
  "nodeSelfSize s nodeIndex = getValue (nodes s) (int nodeIndex + nodeSelfSizeOffset s)"

definition nodeEdgeCount :: "snapshot \<Rightarrow> nat \<Rightarrow> nat" where
  "nodeEdgeCount s nodeIndex = getValue (nodes s) (int nodeIndex + nodeEdgeCountOffset s)"

subsection \<open>Control flow\<close>

text \<open>
  \<^verbatim>\<open>for (i = a; i < l; i += step)\<close>: the values \<open>i\<close> takes. The step is a field
  count, positive whenever the meta information lists the fields the passes need.
\<close>

function strided :: "nat \<Rightarrow> nat \<Rightarrow> nat \<Rightarrow> nat list" where
  "strided i l step = (if i < l \<and> 0 < step then i # strided (i + step) l step else [])"
  by pat_completeness auto
termination
  by (relation "measure (\<lambda>(i, l, step). l - i)") auto

declare strided.simps [simp del]

text \<open>A loop body that may throw, run over a list of loop values.\<close>

fun foldE :: "('a \<Rightarrow> 's \<Rightarrow> error + 's) \<Rightarrow> 'a list \<Rightarrow> 's \<Rightarrow> error + 's" where
  "foldE f [] s = Inr s"
| "foldE f (x # xs) s = (case f x s of Inl e \<Rightarrow> Inl e | Inr s' \<Rightarrow> foldE f xs s')"

text \<open>
  \<^verbatim>\<open>while (b) { c }\<close> on an explicit state. The body may itself fail to return
  (\<open>None\<close>); a loop that runs forever is \<open>None\<close>.
\<close>

partial_function (option) whileM :: "('s \<Rightarrow> bool) \<Rightarrow> ('s \<Rightarrow> 's option) \<Rightarrow> 's \<Rightarrow> 's option" where
  "whileM b c s = (if b s then Option.bind (c s) (whileM b c) else Some s)"

declare whileM.simps [code]

definition whileLoop :: "('s \<Rightarrow> bool) \<Rightarrow> ('s \<Rightarrow> 's) \<Rightarrow> 's \<Rightarrow> 's option" where
  "whileLoop b c s = whileM b (\<lambda>x. Some (c x)) s"

text \<open>Sequencing of passes that may throw or not return.\<close>

definition thenE :: "(error + 'a) option \<Rightarrow> ('a \<Rightarrow> (error + 'b) option) \<Rightarrow> (error + 'b) option" where
  "thenE m f = (case m of None \<Rightarrow> None | Some (Inl e) \<Rightarrow> Some (Inl e) | Some (Inr x) \<Rightarrow> f x)"

subsection \<open>Snapshot diff: \<^verbatim>\<open>calculateDiffForClass\<close>\<close>

text \<open>
  \<^verbatim>\<open>AggregateForDiff\<close>, \<^verbatim>\<open>Aggregate\<close> and \<^verbatim>\<open>Diff\<close> are declared in
  \<^verbatim>\<open>models/heap_snapshot_model\<close>; the records carry the fields that
  \<^verbatim>\<open>calculateDiffForClass\<close> touches. A fresh \<^verbatim>\<open>Diff\<close> has zero counters and empty
  index lists.
\<close>

record AggregateForDiff =
  ids :: "nat list"
  indexes :: "nat list"
  selfSizes :: "nat list"

record Aggregate =
  idxs :: "nat list"

record Diff =
  addedCount :: nat
  removedCount :: nat
  addedSize :: nat
  removedSize :: nat
  deletedIndexes :: "nat list"
  addedIndexes :: "nat list"
  countDelta :: int
  sizeDelta :: int

definition newDiff :: Diff where
  "newDiff = \<lparr>addedCount = 0, removedCount = 0, addedSize = 0, removedSize = 0,
     deletedIndexes = [], addedIndexes = [], countDelta = 0, sizeDelta = 0\<rparr>"

text \<open>The three statements of a "removed" step and of an "added" step.\<close>

definition diffRemove :: "AggregateForDiff \<Rightarrow> nat \<Rightarrow> Diff \<Rightarrow> Diff" where
  "diffRemove base i d =
     d\<lparr>deletedIndexes := deletedIndexes d @ [indexes base ! i],
       removedCount := removedCount d + 1,
       removedSize := removedSize d + selfSizes base ! i\<rparr>"

definition diffAdd :: "snapshot \<Rightarrow> nat list \<Rightarrow> nat \<Rightarrow> Diff \<Rightarrow> Diff" where
  "diffAdd s ixs j d =
     d\<lparr>addedIndexes := addedIndexes d @ [ixs ! j],
       addedCount := addedCount d + 1,
       addedSize := addedSize d + nodeSelfSize s (ixs ! j)\<rparr>"

text \<open>\<^verbatim>\<open>while (i < l && j < m) { ... }\<close>, with \<^verbatim>\<open>nodeB\<close> positioned at \<^verbatim>\<open>indexes[j]\<close>.\<close>

function diffMerge ::
  "snapshot \<Rightarrow> AggregateForDiff \<Rightarrow> nat list \<Rightarrow> nat \<Rightarrow> nat \<Rightarrow> Diff \<Rightarrow> nat \<times> nat \<times> Diff" where
  "diffMerge s base ixs i j d =
     (if i < length (ids base) \<and> j < length ixs then
        (let nodeAId = ids base ! i in
         if nodeAId < nodeId s (ixs ! j) then diffMerge s base ixs (i + 1) j (diffRemove base i d)
         else if nodeAId > nodeId s (ixs ! j) then diffMerge s base ixs i (j + 1) (diffAdd s ixs j d)
         else diffMerge s base ixs (i + 1) (j + 1) d)
      else (i, j, d))"
  by pat_completeness auto
termination
  by (relation "measure (\<lambda>(s, base, ixs, i, j, d). (length (ids base) - i) + (length ixs - j))") auto

declare diffMerge.simps [simp del]

text \<open>\<^verbatim>\<open>const indexes = aggregate ? aggregate.idxs : [];\<close>\<close>

definition aggregateIdxs :: "Aggregate option \<Rightarrow> nat list" where
  "aggregateIdxs aggregate = (case aggregate of Some a \<Rightarrow> idxs a | None \<Rightarrow> [])"

definition calculateDiffForClass ::
  "snapshot \<Rightarrow> AggregateForDiff \<Rightarrow> Aggregate option \<Rightarrow> Diff option" where
  "calculateDiffForClass s baseAggregate aggregate =
     (let ixs = aggregateIdxs aggregate;
          l = length (ids baseAggregate);
          m = length ixs;
          (i, j, d1) = diffMerge s baseAggregate ixs 0 0 newDiff;
          d2 = fold (diffRemove baseAggregate) [i..<l] d1;
          d3 = fold (diffAdd s ixs) [j..<m] d2;
          d4 = d3\<lparr>countDelta := int (addedCount d3) - int (removedCount d3),
                  sizeDelta := int (addedSize d3) - int (removedSize d3)\<rparr>
      in if addedCount d4 = 0 \<and> removedCount d4 = 0 then None else Some d4)"

text \<open>
  What the merge is meant to compute, stated on the two id lists: the positions of the
  base aggregate whose id does not occur in the new aggregate, and the positions of the
  new aggregate whose node id does not occur in the base.
\<close>

definition removedPositions :: "snapshot \<Rightarrow> AggregateForDiff \<Rightarrow> nat list \<Rightarrow> nat list" where
  "removedPositions s base ixs =
     filter (\<lambda>k. ids base ! k \<notin> nodeId s ` set ixs) [0..<length (ids base)]"

definition addedPositions :: "snapshot \<Rightarrow> AggregateForDiff \<Rightarrow> nat list \<Rightarrow> nat list" where
  "addedPositions s base ixs =
     filter (\<lambda>j. nodeId s (ixs ! j) \<notin> set (ids base)) [0..<length ixs]"

text \<open>The two trailing loops, applied to the state the merge loop leaves.\<close>

definition diffFinish ::
  "snapshot \<Rightarrow> AggregateForDiff \<Rightarrow> nat list \<Rightarrow> nat \<times> nat \<times> Diff \<Rightarrow> Diff" where
  "diffFinish s base ixs r = (case r of (i, j, d) \<Rightarrow>
     fold (diffAdd s ixs) [j..<length ixs] (fold (diffRemove base) [i..<length (ids base)] d))"

subsection \<open>Example snapshots\<close>

text \<open>
  A snapshot in the layout V8 writes (without the optional \<^verbatim>\<open>trace_node_id\<close> field),
  with the meta information read and before \<^verbatim>\<open>initialize()\<close> has allocated the
  derived arrays; the root is node 0.
\<close>

definition v8Snapshot :: "nat list \<Rightarrow> nat list \<Rightarrow> string list \<Rightarrow> snapshot" where
  "v8Snapshot ns es strs = readMeta
     \<lparr>nodes = ns, containmentEdges = es, strings = strs,
      node_fields = [''type'', ''name'', ''id'', ''self_size'', ''edge_count'', ''detachedness''],
      node_types = [''hidden'', ''array'', ''string'', ''object'', ''code'', ''closure'',
        ''regexp'', ''number'', ''native'', ''synthetic'', ''concatenated string'',
        ''sliced string'', ''symbol'', ''bigint''],
      edge_fields = [''type'', ''name_or_index'', ''to_node''],
      edge_types = [''context'', ''element'', ''property'', ''internal'', ''hidden'',
        ''shortcut'', ''weak''],
      rootNodeIndexInternal = 0,
      nodeTypeOffset = 0, nodeNameOffset = 0, nodeIdOffset = 0, nodeSelfSizeOffset = 0,
      nodeEdgeCountOffset = 0, nodeDetachednessAndClassIndexOffset = 0, nodeFieldCount = 0,
      nodeArrayType = 0, nodeHiddenType = 0, nodeNativeType = 0, nodeConsStringType = 0,
      nodeSyntheticType = 0, edgeFieldsCount = 0, edgeTypeOffset = 0, edgeNameOffset = 0,
      edgeToNodeOffset = 0, edgeTypes = [], edgeElementType = 0, edgeHiddenType = 0,
      edgeInternalType = 0, edgeShortcutType = 0, edgeWeakType = 0, edgeInvisibleType = 0,
      firstEdgeIndexes = [], retainingNodes = [], retainingEdges = [],
      firstRetainerIndex = [], nodeDistances = [], flags = [], dominatorsTree = [],
      retainedSizes = [], firstDominatedNodeIndex = [], dominatedNodes = []\<rparr>"

text \<open>
  Scenario S6 of the specification: the base aggregate has ids 3, 5, 7, 9, the new
  snapshot holds five objects with ids 5, 7, 9, 11, 13 and self sizes 1, 2, 3, 4, 5.
\<close>

definition diffBase :: AggregateForDiff where
  "diffBase = \<lparr>ids = [3, 5, 7, 9], indexes = [0, 6, 12, 18], selfSizes = [10, 20, 30, 40]\<rparr>"

definition diffSnapshot :: snapshot where
  "diffSnapshot = v8Snapshot
     [3, 0, 5, 1, 0, 0,  3, 0, 7, 2, 0, 0,  3, 0, 9, 3, 0, 0,  3, 0, 11, 4, 0, 0,
      3, 0, 13, 5, 0, 0] [] [''Object'']"

definition diffAggregate :: Aggregate where
  "diffAggregate = \<lparr>idxs = [0, 6, 12, 18, 24]\<rparr>"

subsection \<open>The essential-edge predicate\<close>

text \<open>
  A backtracking matcher for the regular expressions \<^verbatim>\<open>tryParseWeakMapEdgeName\<close> needs:
  a sequence of literal pieces, greedy digit runs \<^verbatim>\<open>\d+\<close> and lazy wildcards \<^verbatim>\<open>.*?\<close>,
  anchored at both ends. \<open>rxMatch\<close> returns the piece of the input each token matched in
  the first match of JavaScript's search order (a greedy token tries the longest piece
  first, a lazy one the shortest).
\<close>

datatype rx = Lit string | Digits | AnyLazy

definition isDigit :: "char \<Rightarrow> bool" where
  "isDigit c = (c \<in> set ''0123456789'')"

text \<open>
  The regular expression has no \<^verbatim>\<open>s\<close> flag: \<^verbatim>\<open>.\<close> matches any character but the line
  terminators U+000A, U+000D, U+2028 and U+2029. The last two are the byte sequences
  \<open>E2 80 A8\<close> and \<open>E2 80 A9\<close>; \<open>lineTerminatorAt\<close> tells whether one starts a string.
\<close>

definition lineTerminatorAt :: "string \<Rightarrow> bool" where
  "lineTerminatorAt x =
     (take 1 x = [CHR 0x0A] \<or> take 1 x = [CHR 0x0D]
      \<or> take 3 x = [CHR 0xE2, CHR 0x80, CHR 0xA8] \<or> take 3 x = [CHR 0xE2, CHR 0x80, CHR 0xA9])"

fun hasLineTerminator :: "string \<Rightarrow> bool" where
  "hasLineTerminator [] = False"
| "hasLineTerminator (c # cs) = (lineTerminatorAt (c # cs) \<or> hasLineTerminator cs)"

fun rxAccepts :: "rx \<Rightarrow> string \<Rightarrow> bool" where
  "rxAccepts (Lit l) x = (x = l)"
| "rxAccepts Digits x = (x \<noteq> [] \<and> list_all isDigit x)"
| "rxAccepts AnyLazy x = (\<not> hasLineTerminator x)"

fun rxCandidates :: "rx \<Rightarrow> string \<Rightarrow> nat list" where
  "rxCandidates (Lit l) s = [length l]"
| "rxCandidates Digits s = rev [1..<Suc (length s)]"
| "rxCandidates AnyLazy s = [0..<Suc (length s)]"

fun firstMatch :: "(nat \<Rightarrow> 'a option) \<Rightarrow> nat list \<Rightarrow> 'a option" where
  "firstMatch f [] = None"
| "firstMatch f (n # ns) = (case f n of Some r \<Rightarrow> Some r | None \<Rightarrow> firstMatch f ns)"

primrec rxMatch :: "rx list \<Rightarrow> string \<Rightarrow> string list option" where
  "rxMatch [] = (\<lambda>s. if s = [] then Some [] else None)"
| "rxMatch (t # ts) = (\<lambda>s.
     firstMatch (\<lambda>n. if n \<le> length s \<and> rxAccepts t (take n s)
                      then map_option ((#) (take n s)) (rxMatch ts (drop n s)) else None)
       (rxCandidates t s))"

text \<open>
  \<^verbatim>\<open>/^\d+(?<duplicatedPart> \/ part of key \(.*? @\d+\) -> value \(.*? @\d+\) pair in WeakMap \(table @(?<tableId>\d+)\))$/\<close>
\<close>

definition ephemeronNameRegex :: "rx list" where
  "ephemeronNameRegex =
     [Digits, Lit '' / part of key ('', AnyLazy, Lit '' @'', Digits,
      Lit '') -> value ('', AnyLazy, Lit '' @'', Digits,
      Lit '') pair in WeakMap (table @'', Digits, Lit '')'']"

text \<open>The two named groups of a match: \<^verbatim>\<open>duplicatedPart\<close> and \<^verbatim>\<open>tableId\<close>.\<close>

definition ephemeronNameMatch :: "string \<Rightarrow> (string \<times> string) option" where
  "ephemeronNameMatch edgeName =
     (case rxMatch ephemeronNameRegex edgeName of
        None \<Rightarrow> None
      | Some pieces \<Rightarrow> Some (concat (tl pieces), pieces ! 10))"

text \<open>
  \<^verbatim>\<open>parseInt(tableId, 10)\<close> of a non-empty digit string. The result is compared with a
  32-bit node id only; beyond \<open>2^53\<close> JavaScript rounds, to a number that no node id
  equals, as the exact value does not either.
\<close>

definition parseInt10 :: "string \<Rightarrow> nat" where
  "parseInt10 ds = foldl (\<lambda>n c. 10 * n + (of_char c - 48)) 0 ds"

text \<open>
  Modelled from the spec: \<^verbatim>\<open>Platform.TypedArrayUtilities.BitVector\<close> is not among the
  sources. The specification describes \<^verbatim>\<open>#edgeNamesThatAreNotWeakMaps\<close> as "a small
  bit-vector over string indexes [that] caches negative matches to avoid re-parsing";
  it is created with one bit per string. A bit outside the vector reads as unset and
  setting it has no effect.
\<close>

definition getBit :: "bool list \<Rightarrow> nat \<Rightarrow> bool" where
  "getBit v i = (i < length v \<and> v ! i)"

definition setBit :: "bool list \<Rightarrow> nat \<Rightarrow> bool list" where
  "setBit v i = v[i := True]"

definition clearBit :: "bool list \<Rightarrow> nat \<Rightarrow> bool list" where
  "clearBit v i = v[i := False]"

definition createBitVector :: "nat \<Rightarrow> bool list" where
  "createBitVector n = replicate n False"

text \<open>
  \<^verbatim>\<open>tryParseWeakMapEdgeName\<close>. The cache of negative answers is the only state it
  touches; it is passed in and returned. The edge name index of an internal edge is a
  valid string index in a well-formed snapshot.
\<close>

definition tryParseWeakMapEdgeName ::
  "snapshot \<Rightarrow> bool list \<Rightarrow> nat \<Rightarrow> (string \<times> string) option \<times> bool list" where
  "tryParseWeakMapEdgeName s notWeakMaps edgeNameIndex =
     (if getBit notWeakMaps edgeNameIndex then (None, notWeakMaps)
      else (case ephemeronNameMatch (strings s ! edgeNameIndex) of
              None \<Rightarrow> (None, setBit notWeakMaps edgeNameIndex)
            | Some groups \<Rightarrow> (Some groups, notWeakMaps)))"

definition isEssentialEdge :: "snapshot \<Rightarrow> bool list \<Rightarrow> nat \<Rightarrow> nat \<Rightarrow> bool \<times> bool list" where
  "isEssentialEdge s notWeakMaps nodeIndex edgeIndex =
     (let edgeType = edgeRawType s edgeIndex;
          plain = (int edgeType \<noteq> edgeWeakType s
                   \<and> (int edgeType \<noteq> edgeShortcutType s \<or> nodeIndex = rootNodeIndexInternal s))
      in if int edgeType = edgeInternalType s then
           (let edgeNameIndex = edgeNameOrIndex s edgeIndex
            in case tryParseWeakMapEdgeName s notWeakMaps edgeNameIndex of
                 (Some (duplicatedPart, tableId), cache) \<Rightarrow>
                   (nodeId s nodeIndex \<noteq> parseInt10 tableId, cache)
               | (None, cache) \<Rightarrow> (plain, cache))
         else (plain, notWeakMaps))"

text \<open>The cache only ever records names that do not match.\<close>

definition cacheSound :: "snapshot \<Rightarrow> bool list \<Rightarrow> bool" where
  "cacheSound s notWeakMaps =
     (\<forall>i. getBit notWeakMaps i \<longrightarrow> ephemeronNameMatch (strings s ! i) = None)"

text \<open>
  Scenario S4 of the specification: a WeakMap table (id 3, node index 6), a key (id 5,
  node index 12) and a value (id 7, node index 18). The table and the key each hold an
  internal edge to the value whose name is the ephemeron description; the root holds a
  property edge to the table and one to the key.
\<close>

definition weakMapSnapshot :: snapshot where
  "weakMapSnapshot = v8Snapshot
     [9, 0, 1, 0, 2, 0,   3, 1, 3, 10, 1, 0,   3, 2, 5, 20, 1, 0,   3, 3, 7, 30, 0, 0]
     [2, 4, 6,   2, 5, 12,   3, 6, 18,   3, 6, 18]
     ['''', ''WeakMap'', ''K'', ''V'', ''map'', ''key'',
      ''0 / part of key (K @5) -> value (V @7) pair in WeakMap (table @3)'']"

subsection \<open>Edge indexes and retainers\<close>

text \<open>The edges of a node, by index: \<^verbatim>\<open>firstEdgeIndexes[ord] .. firstEdgeIndexes[ord + 1]\<close>.\<close>

definition nodeEdges :: "snapshot \<Rightarrow> nat \<Rightarrow> nat list" where
  "nodeEdges s nodeOrdinal =
     strided (firstEdgeIndexes s ! nodeOrdinal) (firstEdgeIndexes s ! (nodeOrdinal + 1))
       (edgeFieldsCount s)"

text \<open>All edge indexes of the snapshot, in array order.\<close>

definition allEdges :: "snapshot \<Rightarrow> nat list" where
  "allEdges s = strided 0 (length (containmentEdges s)) (edgeFieldsCount s)"

definition buildEdgeIndexes :: "snapshot \<Rightarrow> snapshot" where
  "buildEdgeIndexes s =
     (let fei0 = (firstEdgeIndexes s)[nodeCount s := length (containmentEdges s)];
          (fei, edgeIndex) =
             fold (\<lambda>nodeOrdinal (fei, edgeIndex).
                    (fei[nodeOrdinal := edgeIndex],
                     edgeIndex + nodeEdgeCount s (nodeOrdinal * nodeFieldCount s) * edgeFieldsCount s))
               [0..<nodeCount s] (fei0, 0)
      in s\<lparr>firstEdgeIndexes := fei\<rparr>)"

text \<open>
  \<^verbatim>\<open>buildRetainers\<close>, first loop: validate the target of every edge and count the
  retainers of each node. The loop variable runs over the positions of the
  \<^verbatim>\<open>to_node\<close> fields.
\<close>

definition countRetainer :: "snapshot \<Rightarrow> nat \<Rightarrow> nat list \<Rightarrow> error + nat list" where
  "countRetainer s toNodeFieldIndex fri =
     (let toNodeIndex = containmentEdges s ! toNodeFieldIndex
      in if toNodeIndex mod nodeFieldCount s \<noteq> 0 then Inl (InvalidToNodeIndex toNodeIndex)
         else Inr (fri[toNodeIndex div nodeFieldCount s := fri ! (toNodeIndex div nodeFieldCount s) + 1]))"

text \<open>
  Second loop: turn the counts into offsets and park each count in the first slot of
  its bucket. State: \<^verbatim>\<open>firstRetainerIndex\<close>, \<^verbatim>\<open>retainingNodes\<close>,
  \<^verbatim>\<open>firstUnusedRetainerSlot\<close>.
\<close>

definition parkCount :: "nat \<Rightarrow> nat list \<times> nat list \<times> nat \<Rightarrow> nat list \<times> nat list \<times> nat" where
  "parkCount i st = (case st of (fri, rn, firstUnusedRetainerSlot) \<Rightarrow>
     (let retainersCount = fri ! i
      in (fri[i := firstUnusedRetainerSlot],
          rn[firstUnusedRetainerSlot := retainersCount],
          firstUnusedRetainerSlot + retainersCount)))"

text \<open>
  Third loop, one edge: \<^verbatim>\<open>--retainingNodes[firstRetainerSlotIndex]\<close> stores the
  decremented counter as an unsigned 32-bit value, while the expression itself is the
  number, which is \<open>-1\<close> when the counter was \<open>0\<close>. A read outside an array is
  \<^verbatim>\<open>undefined\<close>: then the alignment test sees \<^verbatim>\<open>NaN\<close>, which does not throw, the
  slot index and the decremented counter are \<^verbatim>\<open>undefined\<close> or \<^verbatim>\<open>NaN\<close>, and the three
  writes go to no element of the typed arrays.
\<close>

definition fillRetainer ::
  "snapshot \<Rightarrow> nat list \<Rightarrow> nat \<Rightarrow> nat \<Rightarrow> nat list \<times> nat list \<Rightarrow> error + nat list \<times> nat list" where
  "fillRetainer s fri srcNodeIndex edgeIndex st = (case st of (rn, re) \<Rightarrow>
     (let toNodeFieldIndex = int edgeIndex + edgeToNodeOffset s
      in if toNodeFieldIndex < 0 \<or> int (length (containmentEdges s)) \<le> toNodeFieldIndex then Inr (rn, re)
         else
           (let toNodeIndex = edgeNodeIndex s edgeIndex
            in if toNodeIndex mod nodeFieldCount s \<noteq> 0 then Inl (InvalidToNodeIndex toNodeIndex)
               else if length fri \<le> toNodeIndex div nodeFieldCount s then Inr (rn, re)
               else
                 (let firstRetainerSlotIndex = fri ! (toNodeIndex div nodeFieldCount s)
                  in if length rn \<le> firstRetainerSlotIndex then Inr (rn, re)
                     else
                       (let decremented = int (rn ! firstRetainerSlotIndex) - 1;
                            rn1 = rn[firstRetainerSlotIndex := nat (decremented mod 2 ^ 32)];
                            nextUnusedRetainerSlotIndex = int firstRetainerSlotIndex + decremented
                        in Inr (setValue rn1 nextUnusedRetainerSlotIndex srcNodeIndex,
                                setValue re nextUnusedRetainerSlotIndex edgeIndex))))))"

definition fillRetainersOfNode ::
  "snapshot \<Rightarrow> nat list \<Rightarrow> nat \<Rightarrow> nat list \<times> nat list \<Rightarrow> error + nat list \<times> nat list" where
  "fillRetainersOfNode s fri srcNodeOrdinal st =
     foldE (fillRetainer s fri (srcNodeOrdinal * nodeFieldCount s)) (nodeEdges s srcNodeOrdinal) st"

definition buildRetainers :: "snapshot \<Rightarrow> error + snapshot" where
  "buildRetainers s =
     (case foldE (countRetainer s)
             (strided (nat (edgeToNodeOffset s)) (length (containmentEdges s)) (edgeFieldsCount s))
             (firstRetainerIndex s) of
        Inl e \<Rightarrow> Inl e
      | Inr fri1 \<Rightarrow>
          (let (fri2, rn2, firstUnused) = fold parkCount [0..<nodeCount s] (fri1, retainingNodes s, 0);
               fri3 = fri2[nodeCount s := length rn2]
           in case foldE (fillRetainersOfNode s fri3) [0..<nodeCount s] (rn2, retainingEdges s) of
                Inl e \<Rightarrow> Inl e
              | Inr (rn, re) \<Rightarrow>
                  Inr (s\<lparr>firstRetainerIndex := fri3, retainingNodes := rn, retainingEdges := re\<rparr>)))"

text \<open>The typed arrays \<^verbatim>\<open>initialize()\<close> allocates, zero-filled.\<close>

definition allocateArrays :: "snapshot \<Rightarrow> error + snapshot" where
  "allocateArrays s =
     (if nodeCount s = 0 then Inl InvalidTypedArrayLength
      else Inr (s\<lparr>retainedSizes := replicate (nodeCount s) 0,
        firstEdgeIndexes := replicate (nodeCount s + 1) 0,
        retainingNodes := replicate (edgeCount s) 0,
        retainingEdges := replicate (edgeCount s) 0,
        firstRetainerIndex := replicate (nodeCount s + 1) 0,
        nodeDistances := replicate (nodeCount s) 0,
        firstDominatedNodeIndex := replicate (nodeCount s + 1) 0,
        dominatedNodes := replicate (nodeCount s - 1) 0\<rparr>))"

subsection \<open>Node predicates\<close>

definition isHidden :: "snapshot \<Rightarrow> nat \<Rightarrow> bool" where
  "isHidden s nodeIndex = (int (nodeRawType s nodeIndex) = nodeHiddenType s)"

definition isArray :: "snapshot \<Rightarrow> nat \<Rightarrow> bool" where
  "isArray s nodeIndex = (int (nodeRawType s nodeIndex) = nodeArrayType s)"

definition isSynthetic :: "snapshot \<Rightarrow> nat \<Rightarrow> bool" where
  "isSynthetic s nodeIndex = (int (nodeRawType s nodeIndex) = nodeSyntheticType s)"

definition isRoot :: "snapshot \<Rightarrow> nat \<Rightarrow> bool" where
  "isRoot s nodeIndex = (nodeIndex = rootNodeIndexInternal s)"

definition rawName :: "snapshot \<Rightarrow> nat \<Rightarrow> string" where
  "rawName s nodeIndex = strings s ! nodeNameIndex s nodeIndex"

text \<open>
  \<^verbatim>\<open>JSHeapSnapshotNode.isUserRoot\<close> and \<^verbatim>\<open>isDocumentDOMTreesRoot\<close>. The latter calls
  \<^verbatim>\<open>name()\<close>, which differs from \<^verbatim>\<open>rawName()\<close> for concatenated strings only; the node
  is synthetic where the name is read.
\<close>

definition nodeIsUserRoot :: "snapshot \<Rightarrow> nat \<Rightarrow> bool" where
  "nodeIsUserRoot s nodeIndex = (\<not> isSynthetic s nodeIndex)"

definition isDocumentDOMTreesRoot :: "snapshot \<Rightarrow> nat \<Rightarrow> bool" where
  "isDocumentDOMTreesRoot s nodeIndex =
     (isSynthetic s nodeIndex \<and> rawName s nodeIndex = ''(Document DOM trees)'')"

text \<open>\<^verbatim>\<open>JSHeapSnapshot.isUserRoot\<close>\<close>

definition isUserRoot :: "snapshot \<Rightarrow> nat \<Rightarrow> bool" where
  "isUserRoot s nodeIndex = (nodeIsUserRoot s nodeIndex \<or> isDocumentDOMTreesRoot s nodeIndex)"

definition rootNodeOrdinal :: "snapshot \<Rightarrow> nat" where
  "rootNodeOrdinal s = rootNodeIndexInternal s div nodeFieldCount s"

subsection \<open>DOM state propagation\<close>

text \<open>
  The detachedness field holds the DOM link state in its two low bits
  (\<^verbatim>\<open>Unknown = 0\<close>, \<^verbatim>\<open>Attached = 1\<close>, \<^verbatim>\<open>Detached = 2\<close>). The parallel array that
  replaces the field when the snapshot has none is allocated after
  \<^verbatim>\<open>propagateDOMState\<close>, which returns at once in that case.
\<close>

definition detachednessAndClassIndex :: "snapshot \<Rightarrow> nat \<Rightarrow> nat" where
  "detachednessAndClassIndex s nodeIndex =
     getValue (nodes s) (int nodeIndex + nodeDetachednessAndClassIndexOffset s)"

definition detachedness :: "snapshot \<Rightarrow> nat \<Rightarrow> nat" where
  "detachedness s nodeIndex = detachednessAndClassIndex s nodeIndex AND 3"

text \<open>\<^verbatim>\<open>value &= ~BITMASK_FOR_DOM_LINK_STATE; value |= detachedness\<close>, on 32 bits.\<close>

definition setDetachedness :: "snapshot \<Rightarrow> nat \<Rightarrow> nat \<Rightarrow> snapshot" where
  "setDetachedness s nodeIndex newState =
     (let v = (word_of_nat (detachednessAndClassIndex s nodeIndex) :: 32 word);
          v' = (v AND NOT 3) OR word_of_nat newState
      in s\<lparr>nodes := setValue (nodes s) (int nodeIndex + nodeDetachednessAndClassIndexOffset s)
               (unat v')\<rparr>)"

record domWork =
  domSnap :: snapshot
  domVisited :: "bool list"
  attached :: "nat list"
  detached :: "nat list"
  stringIndexCache :: "(nat \<times> nat) list"

text \<open>
  \<^verbatim>\<open>attached\<close> and \<^verbatim>\<open>detached\<close> are arrays used as stacks (\<^verbatim>\<open>push\<close>, \<^verbatim>\<open>pop\<close>); the
  head of the list is the top. \<^verbatim>\<open>stringIndexCache\<close> is a \<^verbatim>\<open>Map\<close>, looked up with
  \<open>map_of\<close>.
\<close>

definition addDetachedPrefixToNodeName :: "domWork \<Rightarrow> nat \<Rightarrow> domWork" where
  "addDetachedPrefixToNodeName w nodeIndex =
     (let s = domSnap w;
          oldStringIndex = nodeNameIndex s nodeIndex
      in case map_of (stringIndexCache w) oldStringIndex of
           Some newStringIndex \<Rightarrow>
             w\<lparr>domSnap := s\<lparr>nodes := setValue (nodes s) (int nodeIndex + nodeNameOffset s) newStringIndex\<rparr>\<rparr>
         | None \<Rightarrow>
             (let newStringIndex = length (strings s);
                  s1 = s\<lparr>strings := strings s @ [''Detached '' @ strings s ! oldStringIndex]\<rparr>
              in w\<lparr>domSnap := s1\<lparr>nodes := setValue (nodes s1) (int nodeIndex + nodeNameOffset s1) newStringIndex\<rparr>,
                   stringIndexCache := (oldStringIndex, newStringIndex) # stringIndexCache w\<rparr>))"

definition processNode :: "domWork \<Rightarrow> nat \<Rightarrow> nat \<Rightarrow> domWork" where
  "processNode w nodeOrdinal newState =
     (if nodeOrdinal < length (domVisited w) \<and> domVisited w ! nodeOrdinal then w
      else
        (let s = domSnap w;
             nodeIndex = nodeOrdinal * nodeFieldCount s
         in if int (nodeRawType s nodeIndex) \<noteq> nodeNativeType s
            then w\<lparr>domVisited := (domVisited w)[nodeOrdinal := True]\<rparr>
            else
              (let w1 = w\<lparr>domSnap := setDetachedness s nodeIndex newState\<rparr>;
                   w2 = (if newState = 1 then w1\<lparr>attached := nodeOrdinal # attached w1\<rparr>
                         else if newState = 2 then
                           (let w' = addDetachedPrefixToNodeName w1 nodeIndex
                            in w'\<lparr>detached := nodeOrdinal # detached w'\<rparr>)
                         else w1)
               in w2\<lparr>domVisited := (domVisited w2)[nodeOrdinal := True]\<rparr>)))"

text \<open>
  \<^verbatim>\<open>propagateState\<close> through \<^verbatim>\<open>iterateFilteredChildren\<close>: the children over edges that
  are not hidden, invisible or weak.
\<close>

definition propagatingEdge :: "snapshot \<Rightarrow> nat \<Rightarrow> bool" where
  "propagatingEdge s edgeIndex =
     (int (edgeRawType s edgeIndex) \<notin> {edgeHiddenType s, edgeInvisibleType s, edgeWeakType s})"

definition propagateState :: "domWork \<Rightarrow> nat \<Rightarrow> nat \<Rightarrow> domWork" where
  "propagateState w parentNodeOrdinal newState =
     fold (\<lambda>edgeIndex w.
             (let s = domSnap w;
                  childNodeOrdinal = edgeNodeIndex s edgeIndex div nodeFieldCount s
              in if \<not> propagatingEdge s edgeIndex then w
                 else processNode w childNodeOrdinal newState))
       (nodeEdges (domSnap w) parentNodeOrdinal) w"

definition seedNode :: "nat \<Rightarrow> domWork \<Rightarrow> domWork" where
  "seedNode nodeOrdinal w =
     (let state = detachedness (domSnap w) (nodeOrdinal * nodeFieldCount (domSnap w))
      in if state = 0 then w else processNode w nodeOrdinal state)"

definition attachedStep :: "domWork \<Rightarrow> domWork" where
  "attachedStep w = propagateState (w\<lparr>attached := tl (attached w)\<rparr>) (hd (attached w)) 1"

definition detachedStep :: "domWork \<Rightarrow> domWork" where
  "detachedStep w =
     (let nodeOrdinal = hd (detached w);
          w' = w\<lparr>detached := tl (detached w)\<rparr>
      in if detachedness (domSnap w') (nodeOrdinal * nodeFieldCount (domSnap w')) = 1 then w'
         else propagateState w' nodeOrdinal 2)"

definition domSeeded :: "snapshot \<Rightarrow> domWork" where
  "domSeeded s =
     fold seedNode [0..<nodeCount s]
       \<lparr>domSnap = s, domVisited = replicate (nodeCount s) False, attached = [], detached = [],
        stringIndexCache = []\<rparr>"

definition propagateDOMState :: "snapshot \<Rightarrow> snapshot option" where
  "propagateDOMState s =
     (if nodeDetachednessAndClassIndexOffset s = - 1 then Some s
      else
        (case whileLoop (\<lambda>w. attached w \<noteq> []) attachedStep (domSeeded s) of
           None \<Rightarrow> None
         | Some w2 \<Rightarrow>
             (case whileLoop (\<lambda>w. detached w \<noteq> []) detachedStep w2 of
                None \<Rightarrow> None
              | Some w3 \<Rightarrow> Some (domSnap w3))))"

subsection \<open>Node flags\<close>

text \<open>The bit flags of \<^verbatim>\<open>JSHeapSnapshot.nodeFlags\<close>.\<close>

definition canBeQueriedFlag :: nat where "canBeQueriedFlag = 1"
definition detachedDOMTreeNodeFlag :: nat where "detachedDOMTreeNodeFlag = 2"
definition pageObjectFlag :: nat where "pageObjectFlag = 4"

definition hasFlag :: "nat list \<Rightarrow> nat \<Rightarrow> nat \<Rightarrow> bool" where
  "hasFlag fl nodeOrdinal flag = (fl ! nodeOrdinal AND flag \<noteq> 0)"

definition orFlag :: "nat list \<Rightarrow> nat \<Rightarrow> nat \<Rightarrow> nat list" where
  "orFlag fl nodeOrdinal flag = fl[nodeOrdinal := fl ! nodeOrdinal OR flag]"

text \<open>
  \<^verbatim>\<open>markDetachedDOMTreeNodes\<close>: native nodes whose name starts with \<^verbatim>\<open>'Detached '\<close>.
\<close>

definition markDetachedDOMTreeNodes :: "snapshot \<Rightarrow> snapshot" where
  "markDetachedDOMTreeNodes s =
     s\<lparr>flags := fold (\<lambda>ordinal fl.
          (let nodeIndex = ordinal * nodeFieldCount s
           in if int (nodeRawType s nodeIndex) \<noteq> nodeNativeType s then fl
              else if take 9 (rawName s nodeIndex) = ''Detached '' then orFlag fl ordinal detachedDOMTreeNodeFlag
              else fl))
        [0..<nodeCount s] (flags s)\<rparr>"

text \<open>\<^verbatim>\<open>markQueriableHeapObjects\<close>: a work list (\<open>list\<close>, head is the top) and the flags.\<close>

definition queriableSeeds :: "snapshot \<Rightarrow> nat list" where
  "queriableSeeds s =
     fold (\<lambda>edgeIndex l.
             if nodeIsUserRoot s (edgeNodeIndex s edgeIndex)
             then (edgeNodeIndex s edgeIndex div nodeFieldCount s) # l else l)
       (nodeEdges s (rootNodeOrdinal s)) []"

definition queriableStep :: "snapshot \<Rightarrow> nat list \<times> nat list \<Rightarrow> nat list \<times> nat list" where
  "queriableStep s st = (case st of (l, fl) \<Rightarrow>
     (let nodeOrdinal = hd l; l1 = tl l
      in if hasFlag fl nodeOrdinal canBeQueriedFlag then (l1, fl)
         else
           (let fl1 = orFlag fl nodeOrdinal canBeQueriedFlag
            in (fold (\<lambda>edgeIndex l.
                  (let childNodeOrdinal = edgeNodeIndex s edgeIndex div nodeFieldCount s;
                       t = int (edgeRawType s edgeIndex)
                   in if hasFlag fl1 childNodeOrdinal canBeQueriedFlag then l
                      else if t = edgeHiddenType s \<or> t = edgeInvisibleType s
                              \<or> t = edgeInternalType s \<or> t = edgeWeakType s then l
                      else childNodeOrdinal # l))
                 (nodeEdges s nodeOrdinal) l1, fl1))))"

definition markQueriableHeapObjects :: "snapshot \<Rightarrow> snapshot option" where
  "markQueriableHeapObjects s =
     (case whileLoop (\<lambda>(l, fl). l \<noteq> []) (queriableStep s) (queriableSeeds s, flags s) of
        None \<Rightarrow> None
      | Some (l, fl) \<Rightarrow> Some (s\<lparr>flags := fl\<rparr>))"

text \<open>
  \<^verbatim>\<open>markPageOwnedNodes\<close>: \<^verbatim>\<open>nodesToVisit\<close> is a \<^verbatim>\<open>Uint32Array\<close> of \<^verbatim>\<open>nodeCount\<close>
  elements with its fill level; an element read beyond the array is \<^verbatim>\<open>undefined\<close>,
  and the node it stands for has no edges.
\<close>

definition pageOwnedSeed :: "snapshot \<Rightarrow> nat \<Rightarrow> nat list \<times> nat \<times> nat list \<Rightarrow> nat list \<times> nat \<times> nat list" where
  "pageOwnedSeed s edgeIndex st = (case st of (nodesToVisit, nodesToVisitLength, fl) \<Rightarrow>
     (let edgeType = int (edgeRawType s edgeIndex);
          nodeIndex = edgeNodeIndex s edgeIndex;
          nodeOrdinal = nodeIndex div nodeFieldCount s
      in if (if edgeType = edgeElementType s then \<not> isDocumentDOMTreesRoot s nodeIndex
             else edgeType \<noteq> edgeShortcutType s) then st
         else (nodesToVisit[nodesToVisitLength := nodeOrdinal], nodesToVisitLength + 1,
               orFlag fl nodeOrdinal pageObjectFlag)))"

definition pageOwnedChild :: "snapshot \<Rightarrow> nat \<Rightarrow> nat list \<times> nat \<times> nat list \<Rightarrow> nat list \<times> nat \<times> nat list" where
  "pageOwnedChild s edgeIndex st = (case st of (nodesToVisit, nodesToVisitLength, fl) \<Rightarrow>
     (let childNodeOrdinal = edgeNodeIndex s edgeIndex div nodeFieldCount s
      in if hasFlag fl childNodeOrdinal pageObjectFlag then st
         else if int (edgeRawType s edgeIndex) = edgeWeakType s then st
         else (nodesToVisit[nodesToVisitLength := childNodeOrdinal], nodesToVisitLength + 1,
               orFlag fl childNodeOrdinal pageObjectFlag)))"

definition pageOwnedStep :: "snapshot \<Rightarrow> nat list \<times> nat \<times> nat list \<Rightarrow> nat list \<times> nat \<times> nat list" where
  "pageOwnedStep s st = (case st of (nodesToVisit, nodesToVisitLength, fl) \<Rightarrow>
     (let top = nodesToVisitLength - 1
      in if top < length nodesToVisit
         then fold (pageOwnedChild s) (nodeEdges s (nodesToVisit ! top)) (nodesToVisit, top, fl)
         else (nodesToVisit, top, fl)))"

definition markPageOwnedNodes :: "snapshot \<Rightarrow> snapshot option" where
  "markPageOwnedNodes s =
     (case whileLoop (\<lambda>(nodesToVisit, nodesToVisitLength, fl). nodesToVisitLength \<noteq> 0)
             (pageOwnedStep s)
             (fold (pageOwnedSeed s) (nodeEdges s (rootNodeOrdinal s))
                (replicate (nodeCount s) 0, 0, flags s)) of
        None \<Rightarrow> None
      | Some (nodesToVisit, nodesToVisitLength, fl) \<Rightarrow> Some (s\<lparr>flags := fl\<rparr>))"

definition calculateFlags :: "snapshot \<Rightarrow> snapshot option" where
  "calculateFlags s =
     Option.bind (markQueriableHeapObjects
                    (markDetachedDOMTreeNodes (s\<lparr>flags := replicate (nodeCount s) 0\<rparr>)))
       markPageOwnedNodes"

subsection \<open>Distances\<close>

text \<open>
  Modelled from the spec: \<^verbatim>\<open>HeapSnapshotModel.baseSystemDistance\<close> is declared outside
  the sources; the specification gives \<^verbatim>\<open>BASE_SYSTEM_DISTANCE = 100_000_000\<close>.
  \<^verbatim>\<open>#noDistance\<close> is set to \<open>-5\<close> by the constructor.
\<close>

definition baseSystemDistance :: int where "baseSystemDistance = 100000000"
definition noDistance :: int where "noDistance = - 5"

text \<open>
  An edge filter is a closure \<^verbatim>\<open>(node, edge) => boolean\<close>; the one
  \<^verbatim>\<open>JSHeapSnapshot\<close> passes keeps state between calls, so a filter takes and returns
  its state. \<open>None\<close> is the absent filter.
\<close>

type_synonym 'f edgeFilter = "'f \<Rightarrow> nat \<Rightarrow> nat \<Rightarrow> bool \<times> 'f"

record 'f bfsWork =
  nodesToVisit :: "nat list"
  nodesToVisitLength :: nat
  distances :: "int list"
  filterState :: 'f

text \<open>The body of the inner \<^verbatim>\<open>for\<close> loop of \<^verbatim>\<open>bfs\<close>, for one edge of the node visited.\<close>

definition bfsEdge ::
  "snapshot \<Rightarrow> 'f edgeFilter option \<Rightarrow> nat \<Rightarrow> int \<Rightarrow> nat \<Rightarrow> 'f bfsWork \<Rightarrow> 'f bfsWork" where
  "bfsEdge s filt nodeIndex distance edgeIndex w =
     (if int (edgeRawType s edgeIndex) = edgeWeakType s then w
      else
        (let childNodeIndex = edgeNodeIndex s edgeIndex;
             childNodeOrdinal = childNodeIndex div nodeFieldCount s
         in if distances w ! childNodeOrdinal \<noteq> noDistance then w
            else
              (case filt of
                 None \<Rightarrow>
                   w\<lparr>distances := (distances w)[childNodeOrdinal := distance],
                     nodesToVisit := (nodesToVisit w)[nodesToVisitLength w := childNodeIndex],
                     nodesToVisitLength := nodesToVisitLength w + 1\<rparr>
               | Some f \<Rightarrow>
                   (case f (filterState w) nodeIndex edgeIndex of (ok, fs) \<Rightarrow>
                      if \<not> ok then w\<lparr>filterState := fs\<rparr>
                      else w\<lparr>filterState := fs,
                             distances := (distances w)[childNodeOrdinal := distance],
                             nodesToVisit := (nodesToVisit w)[nodesToVisitLength w := childNodeIndex],
                             nodesToVisitLength := nodesToVisitLength w + 1\<rparr>))))"

text \<open>
  One turn of \<^verbatim>\<open>while (index < nodesToVisitLength)\<close>. An entry read beyond the end of
  \<^verbatim>\<open>nodesToVisit\<close> is \<^verbatim>\<open>undefined\<close>: its edge range is empty and the turn only
  advances \<^verbatim>\<open>index\<close>.
\<close>

definition bfsStep ::
  "snapshot \<Rightarrow> 'f edgeFilter option \<Rightarrow> nat \<times> 'f bfsWork \<Rightarrow> nat \<times> 'f bfsWork" where
  "bfsStep s filt st = (case st of (index, w) \<Rightarrow>
     (if index < length (nodesToVisit w) then
        (let nodeIndex = nodesToVisit w ! index;
             nodeOrdinal = nodeIndex div nodeFieldCount s;
             distance = distances w ! nodeOrdinal + 1
         in (index + 1, fold (bfsEdge s filt nodeIndex distance) (nodeEdges s nodeOrdinal) w))
      else (index + 1, w)))"

definition bfs :: "snapshot \<Rightarrow> 'f edgeFilter option \<Rightarrow> 'f bfsWork \<Rightarrow> (error + 'f bfsWork) option" where
  "bfs s filt w =
     (case whileLoop (\<lambda>(index, w). index < nodesToVisitLength w) (bfsStep s filt) (0, w) of
        None \<Rightarrow> None
      | Some (index, w') \<Rightarrow>
          if nodesToVisitLength w' > nodeCount s
          then Some (Inl (BFSFailed (nodesToVisitLength w') (nodeCount s)))
          else Some (Inr w'))"

text \<open>The first loop of \<^verbatim>\<open>calculateDistances\<close>: the user roots among the root's children.\<close>

definition seedUserRoot :: "snapshot \<Rightarrow> (snapshot \<Rightarrow> nat \<Rightarrow> bool) \<Rightarrow> nat \<Rightarrow> 'f bfsWork \<Rightarrow> 'f bfsWork" where
  "seedUserRoot s userRoot edgeIndex w =
     (let nodeIndex = edgeNodeIndex s edgeIndex
      in if userRoot s nodeIndex
         then w\<lparr>distances := (distances w)[nodeIndex div nodeFieldCount s := 1],
                nodesToVisit := (nodesToVisit w)[nodesToVisitLength w := nodeIndex],
                nodesToVisitLength := nodesToVisitLength w + 1\<rparr>
         else w)"

text \<open>
  \<^verbatim>\<open>HeapSnapshot.calculateDistances(false, filter)\<close>. \<open>userRoot\<close> is the virtual method
  \<^verbatim>\<open>isUserRoot\<close>. The second argument of \<^verbatim>\<open>bfs\<close> is passed by value: after the first
  search \<^verbatim>\<open>nodesToVisitLength\<close> still counts the seeds. The result pairs the distances
  with the final state of the filter.
\<close>

definition calculateDistancesWith ::
  "snapshot \<Rightarrow> (snapshot \<Rightarrow> nat \<Rightarrow> bool) \<Rightarrow> 'f edgeFilter option \<Rightarrow> 'f
     \<Rightarrow> (error + int list \<times> 'f) option" where
  "calculateDistancesWith s userRoot filt fs0 =
     (let w0 = \<lparr>nodesToVisit = replicate (nodeCount s) 0, nodesToVisitLength = 0,
                 distances = replicate (length (nodeDistances s)) noDistance,
                 filterState = fs0\<rparr>;
          w1 = fold (seedUserRoot s userRoot) (nodeEdges s (rootNodeOrdinal s)) w0
      in thenE (bfs s filt w1) (\<lambda>w2.
           thenE (bfs s filt
                   (w2\<lparr>distances := (distances w2)[rootNodeOrdinal s :=
                           (if nodesToVisitLength w1 > 0 then baseSystemDistance else 0)],
                        nodesToVisit := (nodesToVisit w2)[0 := rootNodeIndexInternal s],
                        nodesToVisitLength := 1\<rparr>))
             (\<lambda>w3. Some (Inr (distances w3, filterState w3)))))"

text \<open>
  The numbers \<^verbatim>\<open>parseInt\<close> returns: \<^verbatim>\<open>NaN\<close>, a double with an integer value, or an
  infinity (\<open>True\<close> for the negative one). \<open>-0\<close> is \<open>Finite 0\<close>: the source only compares
  the result, takes its remainder and prints it.
\<close>

datatype jsNumber = NaN | Finite int | Infinite bool

function bitLength :: "nat \<Rightarrow> nat" where
  "bitLength n = (if n = 0 then 0 else Suc (bitLength (n div 2)))"
  by pat_completeness auto
termination
  by (relation "measure (\<lambda>n. n)") auto

declare bitLength.simps [simp del]

text \<open>
  The double nearest to a natural number, ties to the even significand; \<open>None\<close> when the
  number rounds beyond the largest double.
\<close>

definition roundToDouble :: "nat \<Rightarrow> nat option" where
  "roundToDouble m =
     (if m < 2 ^ 53 then Some m
      else
        (let e = bitLength m - 53;
             q = m div 2 ^ e;
             r = m mod 2 ^ e;
             q' = (if 2 * r > 2 ^ e \<or> (2 * r = 2 ^ e \<and> odd q) then q + 1 else q);
             v = q' * 2 ^ e
         in if v \<ge> 2 ^ 1024 then None else Some v))"

text \<open>
  The white space \<^verbatim>\<open>parseInt\<close> skips (\<^verbatim>\<open>StrWhiteSpaceChar\<close>): TAB, LF, VT, FF, CR, SP,
  and in their encodings U+00A0, U+1680, U+2000 to U+200A, U+2028, U+2029, U+202F,
  U+205F, U+3000 and U+FEFF.
\<close>

definition isAsciiWhiteSpace :: "char \<Rightarrow> bool" where
  "isAsciiWhiteSpace c = (c \<in> {CHR 0x09, CHR 0x0A, CHR 0x0B, CHR 0x0C, CHR 0x0D, CHR 0x20})"

definition isWhiteSpace3 :: "char \<Rightarrow> char \<Rightarrow> char \<Rightarrow> bool" where
  "isWhiteSpace3 a b c =
     ((a = CHR 0xE1 \<and> b = CHR 0x9A \<and> c = CHR 0x80)
      \<or> (a = CHR 0xE2 \<and> b = CHR 0x80
          \<and> ((0x80 \<le> (of_char c :: nat) \<and> (of_char c :: nat) \<le> 0x8A)
              \<or> c = CHR 0xA8 \<or> c = CHR 0xA9 \<or> c = CHR 0xAF))
      \<or> (a = CHR 0xE2 \<and> b = CHR 0x81 \<and> c = CHR 0x9F)
      \<or> (a = CHR 0xE3 \<and> b = CHR 0x80 \<and> c = CHR 0x80)
      \<or> (a = CHR 0xEF \<and> b = CHR 0xBB \<and> c = CHR 0xBF))"

fun dropWhiteSpace :: "string \<Rightarrow> string" where
  "dropWhiteSpace (a # b # c # r) =
     (if isAsciiWhiteSpace a then dropWhiteSpace (b # c # r)
      else if a = CHR 0xC2 \<and> b = CHR 0xA0 then dropWhiteSpace (c # r)
      else if isWhiteSpace3 a b c then dropWhiteSpace r
      else a # b # c # r)"
| "dropWhiteSpace [a, b] =
     (if isAsciiWhiteSpace a then dropWhiteSpace [b]
      else if a = CHR 0xC2 \<and> b = CHR 0xA0 then []
      else [a, b])"
| "dropWhiteSpace [a] = (if isAsciiWhiteSpace a then [] else [a])"
| "dropWhiteSpace [] = []"

text \<open>
  \<^verbatim>\<open>parseInt(str, 10)\<close>: leading white space, an optional sign, then the longest run of
  digits, read exactly and rounded to a double.
\<close>

definition parseIntJS :: "string \<Rightarrow> jsNumber" where
  "parseIntJS str =
     (let t = dropWhiteSpace str;
          neg = (take 1 t = ''-'');
          u = (if take 1 t = ''-'' \<or> take 1 t = ''+'' then tl t else t);
          ds = takeWhile isDigit u
      in if ds = [] then NaN
         else (case roundToDouble (parseInt10 ds) of
                 None \<Rightarrow> Infinite neg
               | Some v \<Rightarrow> Finite (if neg then - int v else int v)))"

text \<open>
  \<^verbatim>\<open>parseInt(String(x), 10)\<close> for a number \<open>x\<close> that \<^verbatim>\<open>parseInt\<close> returned.
  \<^verbatim>\<open>String\<close> prints the shortest decimal that reads back as \<open>x\<close>: below \<open>10^21\<close> in
  full, so that \<^verbatim>\<open>parseInt\<close> returns \<open>x\<close>; from \<open>10^21\<close> on as \<^verbatim>\<open>d.ddde+NN\<close>, of which
  \<^verbatim>\<open>parseInt\<close> reads the first digit. That digit is the first digit of \<open>x\<close>, unless the
  next one-digit decimal rounds to \<open>x\<close>. \<^verbatim>\<open>"Infinity"\<close> and \<^verbatim>\<open>"NaN"\<close> have no digits.
\<close>

function decimalLength :: "nat \<Rightarrow> nat" where
  "decimalLength n = (if n < 10 then 1 else Suc (decimalLength (n div 10)))"
  by pat_completeness auto
termination
  by (relation "measure (\<lambda>n. n)") auto

declare decimalLength.simps [simp del]

definition leadingDigit :: "nat \<Rightarrow> nat" where
  "leadingDigit v =
     (let e = decimalLength v - 1;
          l = v div 10 ^ e
      in if roundToDouble ((l + 1) * 10 ^ e) = Some v then (if l = 9 then 1 else l + 1) else l)"

definition reparseNumber :: "jsNumber \<Rightarrow> jsNumber" where
  "reparseNumber x =
     (case x of
        NaN \<Rightarrow> NaN
      | Infinite neg \<Rightarrow> NaN
      | Finite k \<Rightarrow>
          if \<bar>k\<bar> < 10 ^ 21 then Finite k
          else Finite (if k < 0 then - int (leadingDigit (nat (- k))) else int (leadingDigit (nat k))))"

text \<open>
  \<^verbatim>\<open>JSHeapSnapshotEdge.name()\<close>. \<^verbatim>\<open>nameInternal()\<close> is a string for an edge with a string
  name and the number \<^verbatim>\<open>nameOrIndex()\<close> otherwise; \<^verbatim>\<open>name()\<close> is \<^verbatim>\<open>String\<close> of it, and
  for a shortcut \<^verbatim>\<open>String\<close> of what \<^verbatim>\<open>parseInt\<close> makes of it unless that is \<^verbatim>\<open>NaN\<close>. A
  value \<open>Number x\<close> stands for the string \<^verbatim>\<open>String(x)\<close>, which is never compared with
  anything but a name that has no digit.
\<close>

datatype edgeNameValue = Text string | Number jsNumber

definition hasStringNameInternal :: "snapshot \<Rightarrow> nat \<Rightarrow> bool" where
  "hasStringNameInternal s edgeIndex =
     (int (edgeRawType s edgeIndex) \<noteq> edgeElementType s
      \<and> int (edgeRawType s edgeIndex) \<noteq> edgeHiddenType s)"

definition nameInternal :: "snapshot \<Rightarrow> nat \<Rightarrow> edgeNameValue" where
  "nameInternal s edgeIndex =
     (if hasStringNameInternal s edgeIndex then Text (strings s ! edgeNameOrIndex s edgeIndex)
      else Number (Finite (int (edgeNameOrIndex s edgeIndex))))"

definition parseIntValue :: "edgeNameValue \<Rightarrow> jsNumber" where
  "parseIntValue name = (case name of Text str \<Rightarrow> parseIntJS str | Number x \<Rightarrow> reparseNumber x)"

definition edgeName :: "snapshot \<Rightarrow> nat \<Rightarrow> edgeNameValue" where
  "edgeName s edgeIndex =
     (let name = nameInternal s edgeIndex
      in if int (edgeRawType s edgeIndex) \<noteq> edgeShortcutType s then name
         else (case parseIntValue name of NaN \<Rightarrow> name | Finite k \<Rightarrow> Number (Finite k)
               | Infinite neg \<Rightarrow> Number (Infinite neg)))"

text \<open>
  The filter of \<^verbatim>\<open>JSHeapSnapshot.calculateDistances\<close>. Its state is the set
  \<^verbatim>\<open>pendingEphemeronEdges\<close> (a list without repetitions) and the cache of
  \<^verbatim>\<open>tryParseWeakMapEdgeName\<close>. In \<^verbatim>\<open>index < 2 || (index % 3) !== 1\<close> the remainder is
  taken of an index that is at least 2; for \<^verbatim>\<open>NaN\<close> and the infinities the test is true.
  An internal edge has a string name (the type codes are positions in one
  enumeration), so \<^verbatim>\<open>nameIndex()\<close> is \<^verbatim>\<open>nameOrIndex()\<close>.
\<close>

definition jsDistanceFilter :: "snapshot \<Rightarrow> (string list \<times> bool list) edgeFilter" where
  "jsDistanceFilter s st nodeIndex edgeIndex = (case st of (pendingEphemeronEdges, notWeakMaps) \<Rightarrow>
     (if isHidden s nodeIndex \<and> edgeName s edgeIndex = Text ''sloppy_function_map''
         \<and> rawName s nodeIndex = ''system / NativeContext'' then (False, st)
      else if isArray s nodeIndex \<and> rawName s nodeIndex = ''(map descriptors)'' then
        (case parseIntValue (edgeName s edgeIndex) of
           NaN \<Rightarrow> (True, st)
         | Infinite neg \<Rightarrow> (True, st)
         | Finite index \<Rightarrow> (index < 2 \<or> index mod 3 \<noteq> 1, st))
      else if int (edgeRawType s edgeIndex) = edgeInternalType s then
        (case tryParseWeakMapEdgeName s notWeakMaps (edgeNameOrIndex s edgeIndex) of
           (Some (duplicatedPart, tableId), cache) \<Rightarrow>
             if duplicatedPart \<in> set pendingEphemeronEdges
             then (True, (removeAll duplicatedPart pendingEphemeronEdges, cache))
             else (False, (duplicatedPart # pendingEphemeronEdges, cache))
         | (None, cache) \<Rightarrow> (True, (pendingEphemeronEdges, cache)))
      else (True, st)))"

text \<open>\<^verbatim>\<open>JSHeapSnapshot.calculateDistances(false)\<close>, storing into \<^verbatim>\<open>nodeDistances\<close>.\<close>

definition calculateDistances :: "snapshot \<Rightarrow> bool list \<Rightarrow> (error + snapshot \<times> bool list) option" where
  "calculateDistances s notWeakMaps =
     thenE (calculateDistancesWith s isUserRoot (Some (jsDistanceFilter s)) ([], notWeakMaps))
       (\<lambda>(dist, (pending, cache)). Some (Inr (s\<lparr>nodeDistances := dist\<rparr>, cache)))"

subsection \<open>Post-order index\<close>

text \<open>
  \<^verbatim>\<open>stackNodes\<close> and \<^verbatim>\<open>stackCurrentEdge\<close> with \<^verbatim>\<open>stackTop\<close> are one stack of frames
  (node ordinal, current edge index), top first; \<open>[]\<close> is \<^verbatim>\<open>stackTop = -1\<close>. The two
  arrays have room for \<^verbatim>\<open>nodeCount\<close> frames, and the frames hold distinct nodes.
\<close>

record dfsWork =
  stack :: "(nat \<times> nat) list"
  dfsVisited :: "bool list"
  postOrderIndex :: nat
  postOrderIndex2NodeOrdinal :: "nat list"
  nodeOrdinal2PostOrderIndex :: "nat list"
  dfsCache :: "bool list"

text \<open>
  The page-ownership gate: \<^verbatim>\<open>nodeOrdinal !== rootNodeOrdinal && childNodeFlag && !nodeFlag\<close>,
  with the flags of \<^verbatim>\<open>userObjectsMapAndFlag()\<close>.
\<close>

definition pageGate :: "snapshot \<Rightarrow> nat \<Rightarrow> nat \<Rightarrow> bool" where
  "pageGate s nodeOrdinal childNodeOrdinal =
     (nodeOrdinal \<noteq> rootNodeOrdinal s
      \<and> hasFlag (flags s) childNodeOrdinal pageObjectFlag
      \<and> \<not> hasFlag (flags s) nodeOrdinal pageObjectFlag)"

text \<open>One turn of \<^verbatim>\<open>while (stackTop >= 0)\<close>.\<close>

definition dfsStep :: "snapshot \<Rightarrow> dfsWork \<Rightarrow> dfsWork" where
  "dfsStep s w =
     (case stack w of
        [] \<Rightarrow> w
      | (nodeOrdinal, edgeIndex) # below \<Rightarrow>
          (let edgesEnd = firstEdgeIndexes s ! (nodeOrdinal + 1)
           in if edgeIndex < edgesEnd then
                (let w1 = w\<lparr>stack := (nodeOrdinal, edgeIndex + edgeFieldsCount s) # below\<rparr>
                 in case isEssentialEdge s (dfsCache w1) (nodeOrdinal * nodeFieldCount s) edgeIndex of
                      (essential, cache) \<Rightarrow>
                        (let w2 = w1\<lparr>dfsCache := cache\<rparr>;
                             childNodeOrdinal = edgeNodeIndex s edgeIndex div nodeFieldCount s
                         in if \<not> essential then w2
                            else if dfsVisited w2 ! childNodeOrdinal then w2
                            else if pageGate s nodeOrdinal childNodeOrdinal then w2
                            else w2\<lparr>stack := (childNodeOrdinal, firstEdgeIndexes s ! childNodeOrdinal) # stack w2,
                                    dfsVisited := (dfsVisited w2)[childNodeOrdinal := True]\<rparr>))
              else
                w\<lparr>nodeOrdinal2PostOrderIndex :=
                     (nodeOrdinal2PostOrderIndex w)[nodeOrdinal := postOrderIndex w],
                  postOrderIndex2NodeOrdinal :=
                     (postOrderIndex2NodeOrdinal w)[postOrderIndex w := nodeOrdinal],
                  postOrderIndex := postOrderIndex w + 1,
                  stack := below\<rparr>))"

definition dfsLoop :: "snapshot \<Rightarrow> dfsWork \<Rightarrow> dfsWork option" where
  "dfsLoop s w = whileLoop (\<lambda>w. stack w \<noteq> []) (dfsStep s) w"

definition hasOnlyWeakRetainers :: "snapshot \<Rightarrow> nat \<Rightarrow> bool" where
  "hasOnlyWeakRetainers s nodeOrdinal =
     list_all (\<lambda>retainerIndex.
         (let retainerEdgeType = int (edgeRawType s (retainingEdges s ! retainerIndex))
          in \<not> (retainerEdgeType \<noteq> edgeWeakType s \<and> retainerEdgeType \<noteq> edgeShortcutType s)))
       [firstRetainerIndex s ! nodeOrdinal ..< firstRetainerIndex s ! (nodeOrdinal + 1)]"

text \<open>The start of the second round: the root below every node that has only weak retainers.\<close>

definition pushWeakOnly :: "snapshot \<Rightarrow> nat \<Rightarrow> dfsWork \<Rightarrow> dfsWork" where
  "pushWeakOnly s i w =
     (if dfsVisited w ! i \<or> \<not> hasOnlyWeakRetainers s i then w
      else w\<lparr>stack := (i, firstEdgeIndexes s ! i) # stack w,
             dfsVisited := (dfsVisited w)[i := True]\<rparr>)"

definition secondRound :: "snapshot \<Rightarrow> dfsWork \<Rightarrow> dfsWork" where
  "secondRound s w =
     fold (pushWeakOnly s) [0..<nodeCount s]
       (w\<lparr>postOrderIndex := postOrderIndex w - 1,
          stack := [(rootNodeOrdinal s, firstEdgeIndexes s ! (rootNodeOrdinal s + 1))]\<rparr>)"

text \<open>The last block: the nodes still unvisited get the next indexes, then the root.\<close>

definition appendUnvisited :: "nat \<Rightarrow> dfsWork \<Rightarrow> dfsWork" where
  "appendUnvisited i w =
     (if dfsVisited w ! i then w
      else w\<lparr>nodeOrdinal2PostOrderIndex := (nodeOrdinal2PostOrderIndex w)[i := postOrderIndex w],
             postOrderIndex2NodeOrdinal := (postOrderIndex2NodeOrdinal w)[postOrderIndex w := i],
             postOrderIndex := postOrderIndex w + 1\<rparr>)"

definition thirdRound :: "snapshot \<Rightarrow> dfsWork \<Rightarrow> dfsWork" where
  "thirdRound s w =
     (if postOrderIndex w \<noteq> nodeCount s then
        (let w1 = fold appendUnvisited [0..<nodeCount s] (w\<lparr>postOrderIndex := postOrderIndex w - 1\<rparr>)
         in w1\<lparr>nodeOrdinal2PostOrderIndex :=
                 (nodeOrdinal2PostOrderIndex w1)[rootNodeOrdinal s := postOrderIndex w1],
               postOrderIndex2NodeOrdinal :=
                 (postOrderIndex2NodeOrdinal w1)[postOrderIndex w1 := rootNodeOrdinal s],
               postOrderIndex := postOrderIndex w1 + 1\<rparr>)
      else w)"

definition dfsInitial :: "snapshot \<Rightarrow> bool list \<Rightarrow> dfsWork" where
  "dfsInitial s notWeakMaps =
     \<lparr>stack = [(rootNodeOrdinal s, firstEdgeIndexes s ! rootNodeOrdinal s)],
      dfsVisited = (replicate (nodeCount s) False)[rootNodeOrdinal s := True],
      postOrderIndex = 0,
      postOrderIndex2NodeOrdinal = replicate (nodeCount s) 0,
      nodeOrdinal2PostOrderIndex = replicate (nodeCount s) 0,
      dfsCache = notWeakMaps\<rparr>"

text \<open>
  \<^verbatim>\<open>buildPostOrderIndex\<close>: the outer \<^verbatim>\<open>while (true)\<close> runs once or twice. The result
  is \<^verbatim>\<open>postOrderIndex2NodeOrdinal\<close>, \<^verbatim>\<open>nodeOrdinal2PostOrderIndex\<close> and the cache.
\<close>

definition buildPostOrderIndex :: "snapshot \<Rightarrow> bool list \<Rightarrow> (nat list \<times> nat list \<times> bool list) option" where
  "buildPostOrderIndex s notWeakMaps =
     (case dfsLoop s (dfsInitial s notWeakMaps) of
        None \<Rightarrow> None
      | Some w1 \<Rightarrow>
          (case (if postOrderIndex w1 = nodeCount s then Some w1
                 else dfsLoop s (secondRound s w1)) of
             None \<Rightarrow> None
           | Some w2 \<Rightarrow>
               (let w3 = thirdRound s w2
                in Some (postOrderIndex2NodeOrdinal w3, nodeOrdinal2PostOrderIndex w3, dfsCache w3))))"

subsection \<open>Dominator tree\<close>

text \<open>
  Modelled from the spec: \<^verbatim>\<open>BitVector.previous\<close> is not among the sources. The
  specification has the dominator builder "scan affected bits from high to low";
  \<^verbatim>\<open>previous(i)\<close> is the largest set bit below \<open>i\<close>, \<open>-1\<close> when there is none.
\<close>

definition previousBit :: "bool list \<Rightarrow> nat \<Rightarrow> int" where
  "previousBit v i = (case filter (getBit v) (rev [0..<i]) of [] \<Rightarrow> - 1 | k # ks \<Rightarrow> int k)"

text \<open>
  The two-finger walk
  \<^verbatim>\<open>while (r !== n) { while (r < n) r = dominators[r]; while (n < r) n = dominators[n]; }\<close>
  on the pair (\<^verbatim>\<open>retainerPostOrderIndex\<close>, \<^verbatim>\<open>newDominatorIndex\<close>).
\<close>

definition intersectFingers :: "nat list \<Rightarrow> nat \<times> nat \<Rightarrow> (nat \<times> nat) option" where
  "intersectFingers dominators rn =
     whileM (\<lambda>(r, n). r \<noteq> n)
       (\<lambda>(r, n).
          case whileLoop (\<lambda>r. r < n) (\<lambda>r. dominators ! r) r of
            None \<Rightarrow> None
          | Some r' \<Rightarrow>
              (case whileLoop (\<lambda>n. n < r') (\<lambda>n. dominators ! n) n of
                 None \<Rightarrow> None
               | Some n' \<Rightarrow> Some (r', n')))
       rn"

record retainerScan =
  newDominatorIndex :: nat
  orphanNode :: bool
  scanCache :: "bool list"

text \<open>
  The body of the loop over the retainers of a node; the Boolean of the result is
  \<^verbatim>\<open>break\<close>. \<open>noEntry\<close> and the root's post-order index are \<^verbatim>\<open>nodesCount\<close> and
  \<^verbatim>\<open>nodesCount - 1\<close>.
\<close>

definition retainerStep ::
  "snapshot \<Rightarrow> nat list \<Rightarrow> nat list \<Rightarrow> nat \<Rightarrow> nat \<Rightarrow> retainerScan \<Rightarrow> (retainerScan \<times> bool) option" where
  "retainerStep s n2po dominators nodeOrdinal retainerIndex sc =
     (let noEntry = length dominators;
          rootPostOrderedIndex = length dominators - 1;
          retainerEdgeIndex = retainingEdges s ! retainerIndex;
          retainerNodeIndex = retainingNodes s ! retainerIndex
      in case isEssentialEdge s (scanCache sc) retainerNodeIndex retainerEdgeIndex of
           (essential, cache) \<Rightarrow>
             (let sc1 = sc\<lparr>scanCache := cache\<rparr>
              in if \<not> essential then Some (sc1, False)
                 else
                   (let sc2 = sc1\<lparr>orphanNode := False\<rparr>;
                        retainerNodeOrdinal = retainerNodeIndex div nodeFieldCount s
                    in if retainerNodeIndex \<noteq> rootNodeIndexInternal s
                          \<and> hasFlag (flags s) nodeOrdinal pageObjectFlag
                          \<and> \<not> hasFlag (flags s) retainerNodeOrdinal pageObjectFlag
                       then Some (sc2, False)
                       else
                         (let retainerPostOrderIndex = n2po ! retainerNodeOrdinal
                          in if dominators ! retainerPostOrderIndex \<noteq> noEntry then
                               (if newDominatorIndex sc2 = noEntry
                                then Some (sc2\<lparr>newDominatorIndex := retainerPostOrderIndex\<rparr>,
                                           retainerPostOrderIndex = rootPostOrderedIndex)
                                else
                                  (case intersectFingers dominators
                                          (retainerPostOrderIndex, newDominatorIndex sc2) of
                                     None \<Rightarrow> None
                                   | Some (r, n) \<Rightarrow>
                                       Some (sc2\<lparr>newDominatorIndex := n\<rparr>, n = rootPostOrderedIndex)))
                             else Some (sc2, False)))))"

fun retainerLoop ::
  "snapshot \<Rightarrow> nat list \<Rightarrow> nat list \<Rightarrow> nat \<Rightarrow> nat list \<Rightarrow> retainerScan \<Rightarrow> retainerScan option" where
  "retainerLoop s n2po dominators nodeOrdinal [] sc = Some sc"
| "retainerLoop s n2po dominators nodeOrdinal (retainerIndex # rest) sc =
     (case retainerStep s n2po dominators nodeOrdinal retainerIndex sc of
        None \<Rightarrow> None
      | Some (sc', stop) \<Rightarrow>
          if stop then Some sc' else retainerLoop s n2po dominators nodeOrdinal rest sc')"

record domTreeWork =
  dominators :: "nat list"
  affected :: "bool list"
  changed :: bool
  sweepIndex :: int
  domTreeCache :: "bool list"

text \<open>
  The body of the sweep \<^verbatim>\<open>for (postOrderIndex = affected.previous(root); postOrderIndex >= 0;
  postOrderIndex = affected.previous(postOrderIndex))\<close>, with the loop's update at its end.
\<close>

definition sweepStep :: "snapshot \<Rightarrow> nat list \<Rightarrow> nat list \<Rightarrow> domTreeWork \<Rightarrow> domTreeWork option" where
  "sweepStep s po2n n2po w =
     (let postOrderIdx = nat (sweepIndex w);
          noEntry = length (dominators w);
          rootPostOrderedIndex = length (dominators w) - 1;
          w1 = w\<lparr>affected := clearBit (affected w) postOrderIdx\<rparr>
      in if dominators w1 ! postOrderIdx = rootPostOrderedIndex
         then Some (w1\<lparr>sweepIndex := previousBit (affected w1) postOrderIdx\<rparr>)
         else
           (let nodeOrdinal = po2n ! postOrderIdx
            in case retainerLoop s n2po (dominators w1) nodeOrdinal
                      [firstRetainerIndex s ! nodeOrdinal ..< firstRetainerIndex s ! (nodeOrdinal + 1)]
                      \<lparr>newDominatorIndex = noEntry, orphanNode = True, scanCache = domTreeCache w1\<rparr> of
                 None \<Rightarrow> None
               | Some sc \<Rightarrow>
                   (let newDom = (if orphanNode sc then rootPostOrderedIndex else newDominatorIndex sc);
                        w2 = w1\<lparr>domTreeCache := scanCache sc\<rparr>;
                        w3 = (if newDom \<noteq> noEntry \<and> dominators w2 ! postOrderIdx \<noteq> newDom
                              then w2\<lparr>dominators := (dominators w2)[postOrderIdx := newDom],
                                      changed := True,
                                      affected := fold (\<lambda>edgeIndex a.
                                          setBit a (n2po ! (edgeNodeIndex s edgeIndex div nodeFieldCount s)))
                                        (nodeEdges s nodeOrdinal) (affected w2)\<rparr>
                              else w2)
                    in Some (w3\<lparr>sweepIndex := previousBit (affected w3) postOrderIdx\<rparr>))))"

definition sweep :: "snapshot \<Rightarrow> nat list \<Rightarrow> nat list \<Rightarrow> domTreeWork \<Rightarrow> domTreeWork option" where
  "sweep s po2n n2po w =
     whileM (\<lambda>w. 0 \<le> sweepIndex w) (sweepStep s po2n n2po)
       (w\<lparr>changed := False,
          sweepIndex := previousBit (affected w) (length (dominators w) - 1)\<rparr>)"

text \<open>The root's direct essential children are marked as affected.\<close>

definition markRootChild :: "snapshot \<Rightarrow> nat list \<Rightarrow> nat \<Rightarrow> bool list \<times> bool list \<Rightarrow> bool list \<times> bool list" where
  "markRootChild s n2po edgeIndex st = (case st of (aff, cache) \<Rightarrow>
     (case isEssentialEdge s cache (rootNodeIndexInternal s) edgeIndex of
        (essential, cache') \<Rightarrow>
          if \<not> essential then (aff, cache')
          else (setBit aff (n2po ! (edgeNodeIndex s edgeIndex div nodeFieldCount s)), cache')))"

text \<open>
  The last loop: \<^verbatim>\<open>dominatorsTree[nodeOrdinal] = postOrderIndex2NodeOrdinal[dominators[postOrderIndex]]\<close>.
  For an entry still at \<^verbatim>\<open>noEntry\<close> the read is beyond the array, \<^verbatim>\<open>undefined\<close>, and
  the \<^verbatim>\<open>Uint32Array\<close> stores \<open>0\<close>.
\<close>

definition toDominatorsTree :: "nat list \<Rightarrow> nat list \<Rightarrow> nat list" where
  "toDominatorsTree po2n doms =
     fold (\<lambda>postOrderIdx tree.
             tree[po2n ! postOrderIdx :=
               (if doms ! postOrderIdx < length po2n then po2n ! (doms ! postOrderIdx) else 0)])
       [0..<length doms] (replicate (length po2n) 0)"

definition domTreeInitial :: "snapshot \<Rightarrow> nat list \<Rightarrow> nat list \<Rightarrow> bool list \<Rightarrow> domTreeWork" where
  "domTreeInitial s po2n n2po notWeakMaps =
     (let nodesCount = length po2n;
          rootPostOrderedIndex = nodesCount - 1;
          (aff, cache) = fold (markRootChild s n2po) (nodeEdges s (rootNodeOrdinal s))
                             (createBitVector nodesCount, notWeakMaps)
      in \<lparr>dominators = (replicate nodesCount nodesCount)[rootPostOrderedIndex := rootPostOrderedIndex],
          affected = aff, changed = True, sweepIndex = - 1, domTreeCache = cache\<rparr>)"

definition buildDominatorTree ::
  "snapshot \<Rightarrow> nat list \<Rightarrow> nat list \<Rightarrow> bool list \<Rightarrow> (nat list \<times> bool list) option" where
  "buildDominatorTree s po2n n2po notWeakMaps =
     (case whileM changed (sweep s po2n n2po) (domTreeInitial s po2n n2po notWeakMaps) of
        None \<Rightarrow> None
      | Some w \<Rightarrow> Some (toDominatorsTree po2n (dominators w), domTreeCache w))"

subsection \<open>Shallow sizes, retained sizes and dominated nodes\<close>

definition hasUserRoots :: "snapshot \<Rightarrow> bool" where
  "hasUserRoots s =
     list_ex (\<lambda>edgeIndex. isUserRoot s (edgeNodeIndex s edgeIndex)) (nodeEdges s (rootNodeOrdinal s))"

definition kUnvisited :: nat where "kUnvisited = 0xffffffff"
definition kHasMultipleOwners :: nat where "kHasMultipleOwners = 0xfffffffe"

definition initialOwner :: "snapshot \<Rightarrow> nat \<Rightarrow> nat list \<times> nat list \<Rightarrow> nat list \<times> nat list" where
  "initialOwner s i st = (case st of (owners, worklist) \<Rightarrow>
     (if isHidden s (i * nodeFieldCount s) \<or> isArray s (i * nodeFieldCount s)
      then (owners[i := kUnvisited], worklist)
      else (owners[i := i], i # worklist)))"

text \<open>The \<^verbatim>\<open>switch\<close> on the owner of an edge's target; the cases are tried in this order.\<close>

definition ownTarget :: "snapshot \<Rightarrow> nat \<Rightarrow> nat \<Rightarrow> nat list \<times> nat list \<Rightarrow> nat list \<times> nat list" where
  "ownTarget s owner edgeIndex st = (case st of (owners, worklist) \<Rightarrow>
     (if int (edgeRawType s edgeIndex) = edgeWeakType s then st
      else
        (let targetId = edgeNodeIndex s edgeIndex div nodeFieldCount s
         in if owners ! targetId = kUnvisited then (owners[targetId := owner], targetId # worklist)
            else if owners ! targetId = targetId \<or> owners ! targetId = owner
                    \<or> owners ! targetId = kHasMultipleOwners then st
            else (owners[targetId := kHasMultipleOwners], targetId # worklist))))"

definition ownerStep :: "snapshot \<Rightarrow> nat list \<times> nat list \<Rightarrow> nat list \<times> nat list" where
  "ownerStep s st = (case st of (owners, worklist) \<Rightarrow>
     (let ident = hd worklist
      in fold (ownTarget s (owners ! ident)) (nodeEdges s ident) (owners, tl worklist)))"

text \<open>The last loop: move the self size of an owned node to its owner.\<close>

definition transferSize :: "snapshot \<Rightarrow> nat list \<Rightarrow> nat \<Rightarrow> nat list \<Rightarrow> nat list" where
  "transferSize s owners i ns =
     (let ownerId = owners ! i
      in if ownerId = kUnvisited \<or> ownerId = kHasMultipleOwners \<or> ownerId = i then ns
         else
           (let ownedNodeIndex = i * nodeFieldCount s;
                ownerNodeIndex = ownerId * nodeFieldCount s
            in if isSynthetic (s\<lparr>nodes := ns\<rparr>) ownerNodeIndex \<or> isRoot s ownerNodeIndex then ns
               else
                 (let sizeToTransfer = getValue ns (int ownedNodeIndex + nodeSelfSizeOffset s);
                      ns1 = setValue ns (int ownedNodeIndex + nodeSelfSizeOffset s) 0
                  in setValue ns1 (int ownerNodeIndex + nodeSelfSizeOffset s)
                       ((getValue ns1 (int ownerNodeIndex + nodeSelfSizeOffset s) + sizeToTransfer)
                          mod 2 ^ 32))))"

definition calculateShallowSizes :: "snapshot \<Rightarrow> (error + snapshot) option" where
  "calculateShallowSizes s =
     (if \<not> hasUserRoots s then Some (Inr s)
      else if nodeCount s \<ge> kHasMultipleOwners then Some (Inl TooManyNodesForCalculateShallowSizes)
      else
        (case whileLoop (\<lambda>(owners, worklist). worklist \<noteq> []) (ownerStep s)
                (fold (initialOwner s) [0..<nodeCount s] (replicate (nodeCount s) 0, [])) of
           None \<Rightarrow> None
         | Some (owners, worklist) \<Rightarrow>
             Some (Inr (s\<lparr>nodes := fold (transferSize s owners) [0..<nodeCount s] (nodes s)\<rparr>))))"

definition calculateRetainedSizes :: "snapshot \<Rightarrow> nat list \<Rightarrow> snapshot" where
  "calculateRetainedSizes s po2n =
     (let r0 = fold (\<lambda>nodeOrdinal r. r[nodeOrdinal := nodeSelfSize s (nodeOrdinal * nodeFieldCount s)])
                 [0..<nodeCount s] (retainedSizes s);
          r1 = fold (\<lambda>postOrderIdx r.
                  (let nodeOrdinal = po2n ! postOrderIdx;
                       dominatorOrdinal = dominatorsTree s ! nodeOrdinal
                   in r[dominatorOrdinal := r ! dominatorOrdinal + r ! nodeOrdinal]))
                 [0..<nodeCount s - 1] r0
      in s\<lparr>retainedSizes := r1\<rparr>)"

text \<open>
  \<^verbatim>\<open>buildDominatedNodes\<close>. \<^verbatim>\<open>rootNodeOrdinal\<close> is the quotient
  \<^verbatim>\<open>rootNodeIndexInternal / nodeFieldCount\<close> of JavaScript numbers, so it equals an
  integer \<open>k\<close> exactly when the root index is \<open>k\<close> times the field count.
\<close>

definition countDominated :: "nat list \<Rightarrow> nat \<Rightarrow> nat list \<Rightarrow> nat list" where
  "countDominated tree nodeOrdinal indexArray =
     indexArray[tree ! nodeOrdinal := indexArray ! (tree ! nodeOrdinal) + 1]"

definition parkDominated :: "nat \<Rightarrow> nat list \<times> nat list \<times> nat \<Rightarrow> nat list \<times> nat list \<times> nat" where
  "parkDominated i st = (case st of (indexArray, dn, firstDominatedNodeIdx) \<Rightarrow>
     (let dominatedCount = indexArray ! i
      in (indexArray[i := firstDominatedNodeIdx],
          dn[firstDominatedNodeIdx := dominatedCount],
          firstDominatedNodeIdx + dominatedCount)))"

definition fillDominated :: "snapshot \<Rightarrow> nat list \<Rightarrow> nat \<Rightarrow> nat list \<Rightarrow> nat list" where
  "fillDominated s indexArray nodeOrdinal dn =
     (let dominatorOrdinal = dominatorsTree s ! nodeOrdinal;
          dominatedRefIndex = indexArray ! dominatorOrdinal;
          decremented = int (dn ! dominatedRefIndex) - 1;
          dn1 = dn[dominatedRefIndex := nat (decremented mod 2 ^ 32)]
      in setValue dn1 (int dominatedRefIndex + decremented) (nodeOrdinal * nodeFieldCount s))"

definition buildDominatedNodes :: "snapshot \<Rightarrow> error + snapshot" where
  "buildDominatedNodes s =
     (if rootNodeIndexInternal s \<noteq> 0
         \<and> int (rootNodeIndexInternal s) \<noteq> (int (nodeCount s) - 1) * int (nodeFieldCount s)
      then Inl RootNodeIsExpectedToBeEitherFirstOrLast
      else
        (let fromNodeOrdinal = (if rootNodeIndexInternal s = 0 then 1 else 0);
             toNodeOrdinal = (if rootNodeIndexInternal s = 0 then nodeCount s else nodeCount s - 1);
             counted = fold (countDominated (dominatorsTree s)) [fromNodeOrdinal..<toNodeOrdinal]
                         (firstDominatedNodeIndex s);
             (indexArray, dn, firstDominatedNodeIdx) =
                fold parkDominated [0..<nodeCount s] (counted, dominatedNodes s, 0);
             indexArray1 = indexArray[nodeCount s := length dn];
             dn1 = fold (fillDominated s indexArray1) [fromNodeOrdinal..<toNodeOrdinal] dn
         in Inr (s\<lparr>firstDominatedNodeIndex := indexArray1, dominatedNodes := dn1\<rparr>)))"

subsection \<open>The initialization pass\<close>

text \<open>
  \<^verbatim>\<open>initialize()\<close> up to and including \<^verbatim>\<open>buildDominatedNodes()\<close>, started from the
  state the constructor leaves (an empty cache of edge names). \<open>initializePasses\<close> is
  the part before \<^verbatim>\<open>buildDominatedNodes()\<close>. The passes that follow
  (\<^verbatim>\<open>calculateObjectNames\<close>, \<^verbatim>\<open>calculateStatistics\<close>, \<^verbatim>\<open>buildSamples\<close>,
  \<^verbatim>\<open>buildLocationMap\<close>, the allocation statistics) write none of the arrays modelled
  here except the class index of the detachedness field.
\<close>

definition initializePasses :: "snapshot \<Rightarrow> (error + snapshot) option" where
  "initializePasses s0 =
     thenE (Some (allocateArrays (readMeta s0))) (\<lambda>s1.
     thenE (Some (buildRetainers (buildEdgeIndexes s1))) (\<lambda>s2.
     thenE (map_option Inr (propagateDOMState s2)) (\<lambda>s3.
     thenE (map_option Inr (calculateFlags s3)) (\<lambda>s4.
     thenE (calculateDistances s4 (createBitVector (length (strings s0)))) (\<lambda>(s5, cache5).
     thenE (map_option Inr (buildPostOrderIndex s5 cache5)) (\<lambda>(po2n, n2po, cache6).
     thenE (map_option Inr (buildDominatorTree s5 po2n n2po cache6)) (\<lambda>(tree, cache7).
     thenE (calculateShallowSizes (s5\<lparr>dominatorsTree := tree\<rparr>)) (\<lambda>s8.
     Some (Inr (calculateRetainedSizes s8 po2n))))))))))"

definition initialize :: "snapshot \<Rightarrow> (error + snapshot) option" where
  "initialize s0 = thenE (initializePasses s0) (\<lambda>s9. Some (buildDominatedNodes s9))"

subsection \<open>Auxiliary notions for the statements\<close>

text \<open>What each pass leaves alone: the root index, the field count and the number of nodes.\<close>

definition rootFrame :: "snapshot \<Rightarrow> snapshot \<Rightarrow> bool" where
  "rootFrame s s' =
     (rootNodeIndexInternal s' = rootNodeIndexInternal s
      \<and> nodeFieldCount s' = nodeFieldCount s
      \<and> length (nodes s') = length (nodes s))"

text \<open>
  The root is neither the first nor the last node: the quotient
  \<^verbatim>\<open>rootNodeIndexInternal / nodeFieldCount\<close> is neither \<open>0\<close> nor \<^verbatim>\<open>nodeCount - 1\<close>.
\<close>

definition rootMisplaced :: "snapshot \<Rightarrow> bool" where
  "rootMisplaced s =
     (rootNodeIndexInternal s \<noteq> 0
      \<and> int (rootNodeIndexInternal s) \<noteq> (int (nodeCount s) - 1) * int (nodeFieldCount s))"

text \<open>A snapshot of three objects whose root is the node in the middle.\<close>

definition middleRootSnapshot :: snapshot where
  "middleRootSnapshot =
     (v8Snapshot [3, 1, 3, 10, 0, 0,   9, 0, 1, 0, 2, 0,   3, 2, 5, 20, 0, 0]
        [2, 3, 0,   2, 4, 12] ['''', ''A'', ''B'', ''a'', ''b''])\<lparr>rootNodeIndexInternal := 6\<rparr>"

text \<open>The states \<^verbatim>\<open>initialize()\<close> passes through on this snapshot.\<close>

definition mrAllocated :: snapshot where
  "mrAllocated = middleRootSnapshot\<lparr>retainedSizes := [0, 0, 0],
     firstEdgeIndexes := [0, 0, 0, 0], retainingNodes := [0, 0], retainingEdges := [0, 0],
     firstRetainerIndex := [0, 0, 0, 0], nodeDistances := [0, 0, 0],
     firstDominatedNodeIndex := [0, 0, 0, 0], dominatedNodes := [0, 0]\<rparr>"

definition mrRetainers :: snapshot where
  "mrRetainers = mrAllocated\<lparr>firstEdgeIndexes := [0, 0, 6, 6],
     firstRetainerIndex := [0, 1, 1, 2], retainingNodes := [6, 6], retainingEdges := [0, 3]\<rparr>"

definition mrFlags :: snapshot where
  "mrFlags = mrRetainers\<lparr>flags := [1, 0, 1]\<rparr>"

definition mrDistances :: snapshot where
  "mrDistances = mrFlags\<lparr>nodeDistances := [1, 100000000, 1]\<rparr>"

definition mrDominators :: snapshot where
  "mrDominators = mrDistances\<lparr>dominatorsTree := [1, 1, 1]\<rparr>"

text \<open>The same snapshot with the second edge of the root pointing into the last node.\<close>

definition middleRootBadEdge :: snapshot where
  "middleRootBadEdge =
     (v8Snapshot [3, 1, 3, 10, 0, 0,   9, 0, 1, 0, 2, 0,   3, 2, 5, 20, 0, 0]
        [2, 3, 0,   2, 4, 13] ['''', ''A'', ''B'', ''a'', ''b''])\<lparr>rootNodeIndexInternal := 6\<rparr>"

text \<open>
  Two snapshots of \<open>0xFFFFFFFE\<close> nodes, all hidden and of size zero. In the first the
  root has no edges; in the second it has one property edge, to the node after it.
\<close>

definition hugeRootlessSnapshot :: snapshot where
  "hugeRootlessSnapshot =
     (v8Snapshot (replicate (0xfffffffe * 6) 0) [] [''''])\<lparr>firstEdgeIndexes := replicate 0xffffffff 0\<rparr>"

definition hugeSnapshot :: snapshot where
  "hugeSnapshot =
     (v8Snapshot ([0, 0, 1, 0, 1, 0] @ replicate (0xfffffffd * 6) 0) [2, 0, 6] [''''])
       \<lparr>firstEdgeIndexes := 0 # replicate 0xfffffffe 3\<rparr>"

subsection \<open>Notions for the statements about orders and sizes\<close>

text \<open>A list that holds every ordinal below \<open>n\<close> exactly once.\<close>

definition isPermutation :: "nat list \<Rightarrow> nat \<Rightarrow> bool" where
  "isPermutation xs n = (distinct xs \<and> set xs = {0..<n})"

text \<open>The sum of the self sizes of all nodes, as the \<^verbatim>\<open>nodes\<close> array holds them.\<close>

definition selfSizeSum :: "snapshot \<Rightarrow> nat" where
  "selfSizeSum s = sum_list (map (\<lambda>v. nodeSelfSize s (v * nodeFieldCount s)) [0..<nodeCount s])"

text \<open>
  Every node but the last of the order has its dominator later in the order: the premise
  under which one pass over the order can add up retained sizes.
\<close>

definition dominatorsFollow :: "snapshot \<Rightarrow> nat list \<Rightarrow> bool" where
  "dominatorsFollow s po2n =
     list_all (\<lambda>i. list_ex (\<lambda>j. po2n ! j = dominatorsTree s ! (po2n ! i)) [i + 1..<nodeCount s])
       [0..<nodeCount s - 1]"

subsection \<open>A value held by a WeakMap table only\<close>

text \<open>
  The root holds a WeakMap table (id 3, ordinal 1); the table holds a value (id 7,
  ordinal 2) through the internal edge of an ephemeron pair whose key is not in the
  snapshot; the value holds an object (id 9, ordinal 3) through a property. The states
  below are the ones \<^verbatim>\<open>initialize()\<close> passes through on this snapshot.
\<close>

definition orphanValueSnapshot :: snapshot where
  "orphanValueSnapshot = v8Snapshot
     [9, 0, 1, 0, 1, 0,   3, 1, 3, 10, 1, 0,   3, 2, 7, 20, 1, 0,   3, 3, 9, 40, 0, 0]
     [2, 4, 6,   3, 6, 12,   2, 5, 18]
     ['''', ''WeakMap'', ''V'', ''Y'', ''map'', ''f'',
      ''0 / part of key (K @5) -> value (V @7) pair in WeakMap (table @3)'']"

definition ovAllocated :: snapshot where
  "ovAllocated = orphanValueSnapshot\<lparr>retainedSizes := [0, 0, 0, 0],
     firstEdgeIndexes := [0, 0, 0, 0, 0], retainingNodes := [0, 0, 0], retainingEdges := [0, 0, 0],
     firstRetainerIndex := [0, 0, 0, 0, 0], nodeDistances := [0, 0, 0, 0],
     firstDominatedNodeIndex := [0, 0, 0, 0, 0], dominatedNodes := [0, 0, 0]\<rparr>"

definition ovRetainers :: snapshot where
  "ovRetainers = ovAllocated\<lparr>firstEdgeIndexes := [0, 3, 6, 9, 9],
     firstRetainerIndex := [0, 0, 1, 2, 3], retainingNodes := [0, 6, 12],
     retainingEdges := [0, 3, 6]\<rparr>"

definition ovFlags :: snapshot where
  "ovFlags = ovRetainers\<lparr>flags := [0, 1, 0, 0]\<rparr>"

definition ovDistances :: snapshot where
  "ovDistances = ovFlags\<lparr>nodeDistances := [100000000, 1, - 5, - 5]\<rparr>"

definition ovDominators :: snapshot where
  "ovDominators = ovDistances\<lparr>dominatorsTree := [0, 0, 0, 2]\<rparr>"

definition ovFinal :: snapshot where
  "ovFinal = ovDominators\<lparr>retainedSizes := [30, 10, 60, 40],
     firstDominatedNodeIndex := [0, 2, 2, 3, 3], dominatedNodes := [12, 6, 18]\<rparr>"

text \<open>Scenario S4 (\<open>weakMapSnapshot\<close>) as \<^verbatim>\<open>calculateRetainedSizes\<close> finds it.\<close>

definition wmDominators :: snapshot where
  "wmDominators = weakMapSnapshot\<lparr>retainedSizes := [0, 0, 0, 0],
     firstEdgeIndexes := [0, 6, 9, 12, 12], retainingNodes := [0, 0, 12, 6],
     retainingEdges := [0, 3, 9, 6], firstRetainerIndex := [0, 0, 1, 2, 4],
     nodeDistances := [100000000, 1, 1, 2], firstDominatedNodeIndex := [0, 0, 0, 0, 0],
     dominatedNodes := [0, 0, 0], flags := [0, 1, 1, 0], dominatorsTree := [0, 0, 0, 2]\<rparr>"

subsection \<open>Notions for the statement about distances\<close>

text \<open>\<open>v\<close> is the target of an edge of \<open>u\<close> that is not weak.\<close>

definition nonWeakChild :: "snapshot \<Rightarrow> nat \<Rightarrow> nat \<Rightarrow> bool" where
  "nonWeakChild s u v =
     list_ex (\<lambda>e. int (edgeRawType s e) \<noteq> edgeWeakType s
                   \<and> edgeNodeIndex s e div nodeFieldCount s = v) (nodeEdges s u)"

text \<open>
  The nodes a distance can reach: the root, the user roots among the targets of the
  root's edges (of any type), and what paths of non-weak edges reach from these.
\<close>

inductive distanceReachable :: "snapshot \<Rightarrow> (snapshot \<Rightarrow> nat \<Rightarrow> bool) \<Rightarrow> nat \<Rightarrow> bool"
  for s :: snapshot and userRoot :: "snapshot \<Rightarrow> nat \<Rightarrow> bool" where
  root: "distanceReachable s userRoot (rootNodeOrdinal s)"
| seed: "e \<in> set (nodeEdges s (rootNodeOrdinal s)) \<Longrightarrow> userRoot s (edgeNodeIndex s e)
         \<Longrightarrow> distanceReachable s userRoot (edgeNodeIndex s e div nodeFieldCount s)"
| step: "distanceReachable s userRoot u \<Longrightarrow> nonWeakChild s u v \<Longrightarrow> distanceReachable s userRoot v"





subsection \<open>Notions for the statement about DOM states\<close>








subsection \<open>Notions for the statement about retainers\<close>

text \<open>
  What \<^verbatim>\<open>buildRetainers\<close> finds when \<^verbatim>\<open>initialize()\<close> calls it on a snapshot whose edge
  array is a whole number of edges, fewer than \<open>2\<^sup>3\<^sup>2\<close> fields, with a \<^verbatim>\<open>to_node\<close> field,
  and whose nodes' edge ranges follow one another through the whole edge array: the
  retainer arrays are freshly allocated, one slot per edge, zero-filled.
\<close>

definition retainersWellFormed :: "snapshot \<Rightarrow> bool" where
  "retainersWellFormed s =
     (0 < nodeFieldCount s \<and> 0 < edgeFieldsCount s
      \<and> 0 \<le> edgeToNodeOffset s \<and> edgeToNodeOffset s < int (edgeFieldsCount s)
      \<and> edgeFieldsCount s dvd length (containmentEdges s)
      \<and> length (containmentEdges s) < 2 ^ 32
      \<and> concat (map (nodeEdges s) [0..<nodeCount s]) = allEdges s
      \<and> firstRetainerIndex s = replicate (nodeCount s + 1) 0
      \<and> length (retainingNodes s) = edgeCount s
      \<and> length (retainingEdges s) = edgeCount s)"

text \<open>Every \<^verbatim>\<open>to_node\<close> field is a multiple of the node field count.\<close>

definition targetsAligned :: "snapshot \<Rightarrow> bool" where
  "targetsAligned s = list_all (\<lambda>e. edgeNodeIndex s e mod nodeFieldCount s = 0) (allEdges s)"

text \<open>Every \<^verbatim>\<open>to_node\<close> field is below the length of the \<^verbatim>\<open>nodes\<close> array.\<close>

definition targetsInRange :: "snapshot \<Rightarrow> bool" where
  "targetsInRange s =
     list_all (\<lambda>e. edgeNodeIndex s e < nodeCount s * nodeFieldCount s) (allEdges s)"

text \<open>The retainer slots of a node: \<^verbatim>\<open>firstRetainerIndex[v] .. firstRetainerIndex[v + 1]\<close>.\<close>

definition retainerSlots :: "snapshot \<Rightarrow> nat \<Rightarrow> nat list" where
  "retainerSlots s v = [firstRetainerIndex s ! v..<firstRetainerIndex s ! (v + 1)]"

text \<open>
  Three nodes; the root has an edge to each of the other two and a third edge
  whose \<^verbatim>\<open>to_node\<close> is \<open>18\<close>, a multiple of the field count past the last node.
\<close>

definition strayTargetSnapshot :: snapshot where
  "strayTargetSnapshot =
     (v8Snapshot [9, 0, 1, 0, 3, 0,   3, 1, 3, 10, 0, 0,   3, 2, 5, 20, 0, 0]
        [2, 3, 6,   2, 4, 12,   2, 5, 18] ['''', ''A'', ''B'', ''a'', ''b'', ''c''])
       \<lparr>firstEdgeIndexes := [0, 9, 9, 9], retainingNodes := [0, 0, 0],
        retainingEdges := [0, 0, 0], firstRetainerIndex := [0, 0, 0, 0]\<rparr>"

definition strayTargetRetainers :: snapshot where
  "strayTargetRetainers = strayTargetSnapshot\<lparr>firstRetainerIndex := [0, 0, 1, 3],
     retainingNodes := [0, 0, 0], retainingEdges := [0, 3, 0]\<rparr>"

text \<open>
  The third loop of \<^verbatim>\<open>buildRetainers\<close> visits pairs of a source ordinal and an edge index.
  Of a list of such pairs: those that lead to node \<open>v\<close>, and the slot where the bucket of
  \<open>v\<close> starts when the whole list is \<open>PL\<close>.
\<close>

definition bucketOf :: "(nat \<Rightarrow> nat) \<Rightarrow> (nat \<times> nat) list \<Rightarrow> nat \<Rightarrow> (nat \<times> nat) list" where
  "bucketOf tgt P v = filter (\<lambda>x. tgt (snd x) = v) P"

definition slotStart :: "(nat \<Rightarrow> nat) \<Rightarrow> (nat \<times> nat) list \<Rightarrow> nat \<Rightarrow> nat" where
  "slotStart tgt PL v = (\<Sum>u<v. length (bucketOf tgt PL u))"

text \<open>
  The state of the third loop after the pairs \<open>P\<close>: a bucket that is not yet full has the
  number of missing retainers in its first slot, and the retainers seen so far fill it
  from its end.
\<close>

definition fillInv ::
  "(nat \<Rightarrow> nat) \<Rightarrow> nat \<Rightarrow> (nat \<times> nat) list \<Rightarrow> nat \<Rightarrow> (nat \<times> nat) list \<Rightarrow> nat list \<Rightarrow> nat list \<Rightarrow> bool" where
  "fillInv tgt nfc PL n P rn re =
     (length rn = length PL \<and> length re = length PL
      \<and> (\<forall>v<n. (length (bucketOf tgt P v) < length (bucketOf tgt PL v) \<longrightarrow>
                  rn ! slotStart tgt PL v = length (bucketOf tgt PL v) - length (bucketOf tgt P v))
             \<and> (\<forall>j<length (bucketOf tgt P v).
                  rn ! (slotStart tgt PL v + length (bucketOf tgt PL v) - 1 - j)
                    = fst (bucketOf tgt P v ! j) * nfc
                  \<and> re ! (slotStart tgt PL v + length (bucketOf tgt PL v) - 1 - j)
                    = snd (bucketOf tgt P v ! j))))"

text \<open>The ordinal an edge leads to, and the pairs the third loop visits, in its order.\<close>

definition edgeTarget :: "snapshot \<Rightarrow> nat \<Rightarrow> nat" where
  "edgeTarget s e = edgeNodeIndex s e div nodeFieldCount s"

definition edgePairs :: "snapshot \<Rightarrow> (nat \<times> nat) list" where
  "edgePairs s = concat (map (\<lambda>v. map (Pair v) (nodeEdges s v)) [0..<nodeCount s])"

section \<open>Loops\<close>

lemma whileM_invariant:
  assumes run: "whileM b c s = Some t" and "I s"
    and step: "\<And>x x'. I x \<Longrightarrow> b x \<Longrightarrow> c x = Some x' \<Longrightarrow> I x'"
  shows "I t \<and> \<not> b t"
proof -
  define P where "P = (\<lambda>b' c' s' t'. b' = b \<and> c' = c \<longrightarrow> I s' \<longrightarrow> I t' \<and> \<not> b t')"
  have "P b c s t"
  proof (rule whileM.raw_induct[where P = P, OF _ run])
    fix w b' c' s' t'
    assume IH: "\<And>b c s y. w b c s = Some y \<Longrightarrow> P b c s y"
      and eq: "(if b' s' then Option.bind (c' s') (w b' c') else Some s') = Some t'"
    show "P b' c' s' t'"
      unfolding P_def
    proof (intro impI)
      assume bc: "b' = b \<and> c' = c" and inv: "I s'"
      show "I t' \<and> \<not> b t'"
      proof (cases "b s'")
        case False
        with eq bc inv show ?thesis by simp
      next
        case True
        with eq bc obtain x' where cx: "c s' = Some x'" and w: "w b c x' = Some t'"
          by (auto simp: bind_eq_Some_conv)
        from step[OF inv True cx] have "I x'" .
        with IH[OF w] show ?thesis by (simp add: P_def)
      qed
    qed
  qed
  with assms(2) show ?thesis by (simp add: P_def)
qed

lemma whileM_terminates:
  assumes "wf r" and "I s"
    and step: "\<And>x. I x \<Longrightarrow> b x \<Longrightarrow> \<exists>x'. c x = Some x' \<and> I x' \<and> (x', x) \<in> r"
  shows "\<exists>t. whileM b c s = Some t"
  using assms(1,2)
proof (induction s rule: wf_induct_rule)
  case (less x)
  show ?case
  proof (cases "b x")
    case False
    then show ?thesis by (subst whileM.simps) simp
  next
    case True
    from step[OF less.prems True] obtain x' where x': "c x = Some x'" "I x'" "(x', x) \<in> r"
      by blast
    from less.IH[OF x'(3) x'(2)] obtain t where "whileM b c x' = Some t" by blast
    with True x'(1) show ?thesis by (subst whileM.simps) simp
  qed
qed

lemma whileLoop_invariant:
  assumes "whileLoop b c s = Some t" and "I s"
    and step: "\<And>x. I x \<Longrightarrow> b x \<Longrightarrow> I (c x)"
  shows "I t \<and> \<not> b t"
  using whileM_invariant[of b "\<lambda>x. Some (c x)" s t I] assms
  by (auto simp: whileLoop_def)

lemma whileLoop_terminates:
  assumes "wf r" and "I s"
    and step: "\<And>x. I x \<Longrightarrow> b x \<Longrightarrow> I (c x) \<and> (c x, x) \<in> r"
  shows "\<exists>t. whileLoop b c s = Some t"
  unfolding whileLoop_def
  by (rule whileM_terminates[where I = I and r = r, OF assms(1,2)]) (use step in auto)

lemma whileLoop_unfold:
  "whileLoop b c s = (if b s then whileLoop b c (c s) else Some s)"
  unfolding whileLoop_def by (subst whileM.simps) simp

lemma fold_invariant:
  assumes "I s" and "\<And>x s. x \<in> set xs \<Longrightarrow> I s \<Longrightarrow> I (f x s)"
  shows "I (fold f xs s)"
  using assms by (induction xs arbitrary: s) auto

lemma foldE_invariant:
  assumes "foldE f xs s = Inr t" and "I s"
    and "\<And>x s s'. x \<in> set xs \<Longrightarrow> I s \<Longrightarrow> f x s = Inr s' \<Longrightarrow> I s'"
  shows "I t"
  using assms
proof (induction xs arbitrary: s)
  case Nil
  then show ?case by simp
next
  case (Cons x xs)
  from Cons.prems(1) obtain s' where s': "f x s = Inr s'" "foldE f xs s' = Inr t"
    by (auto split: sum.splits)
  have "I s'" using Cons.prems(3)[of x s s'] Cons.prems(2) s'(1) by simp
  then show ?case using Cons.IH[OF s'(2)] Cons.prems(3) by auto
qed

section \<open>Snapshot diff\<close>

lemma fold_diffRemove:
  "fold (diffRemove base) ks d =
     d\<lparr>deletedIndexes := deletedIndexes d @ map (\<lambda>k. indexes base ! k) ks,
       removedCount := removedCount d + length ks,
       removedSize := removedSize d + sum_list (map (\<lambda>k. selfSizes base ! k) ks)\<rparr>"
  by (induction ks arbitrary: d) (simp_all add: diffRemove_def)

lemma fold_diffAdd:
  "fold (diffAdd s ixs) js d =
     d\<lparr>addedIndexes := addedIndexes d @ map (\<lambda>j. ixs ! j) js,
       addedCount := addedCount d + length js,
       addedSize := addedSize d + sum_list (map (\<lambda>j. nodeSelfSize s (ixs ! j)) js)\<rparr>"
  by (induction js arbitrary: d) (simp_all add: diffAdd_def)

lemma diffAdd_diffRemove_commute:
  "diffAdd s ixs j (diffRemove base i d) = diffRemove base i (diffAdd s ixs j d)"
  by (simp add: diffAdd_def diffRemove_def)

lemma fold_diffRemove_diffAdd:
  "fold (diffRemove base) ks (diffAdd s ixs j d) = diffAdd s ixs j (fold (diffRemove base) ks d)"
  by (induction ks arbitrary: d) (simp_all add: diffAdd_diffRemove_commute[symmetric])

lemma filter_upt_Cons:
  "i < l \<Longrightarrow> filter P [i..<l] = (if P i then i # filter P [Suc i..<l] else filter P [Suc i..<l])"
  by (simp add: upt_conv_Cons)

lemma in_set_drop_nth:
  "x \<in> set (drop n xs) \<longleftrightarrow> (\<exists>k. n \<le> k \<and> k < length xs \<and> xs ! k = x)"
proof
  assume "x \<in> set (drop n xs)"
  then obtain i where i: "i < length xs - n" "drop n xs ! i = x"
    by (auto simp: in_set_conv_nth)
  then have "n \<le> n + i \<and> n + i < length xs \<and> xs ! (n + i) = x" by auto
  then show "\<exists>k. n \<le> k \<and> k < length xs \<and> xs ! k = x" by blast
next
  assume "\<exists>k. n \<le> k \<and> k < length xs \<and> xs ! k = x"
  then obtain k where k: "n \<le> k" "k < length xs" "xs ! k = x" by blast
  then have "k - n < length (drop n xs)" "drop n xs ! (k - n) = x" by auto
  then show "x \<in> set (drop n xs)" by (metis nth_mem)
qed

lemma diffMerge_finish:
  assumes "sorted_wrt (<) (ids base)" "sorted_wrt (<) (map (nodeId s) ixs)"
  shows "diffFinish s base ixs (diffMerge s base ixs i j d) =
     fold (diffAdd s ixs) (filter (\<lambda>k. nodeId s (ixs ! k) \<notin> set (drop i (ids base))) [j..<length ixs])
       (fold (diffRemove base) (filter (\<lambda>k. ids base ! k \<notin> nodeId s ` set (drop j ixs)) [i..<length (ids base)]) d)"
  using assms
proof (induction s base ixs i j d rule: diffMerge.induct)
  case (1 s base ixs i j d)
  let ?l = "length (ids base)" and ?m = "length ixs"
  have idlt: "\<And>a b. a < b \<Longrightarrow> b < ?l \<Longrightarrow> ids base ! a < ids base ! b"
    using "1.prems"(1) by (simp add: sorted_wrt_nth_less)
  have nlt: "\<And>a b. a < b \<Longrightarrow> b < ?m \<Longrightarrow> nodeId s (ixs ! a) < nodeId s (ixs ! b)"
    using sorted_wrt_nth_less[OF "1.prems"(2)] by fastforce
  note indrop = in_set_drop_nth
  show ?case
  proof (cases "i < ?l \<and> j < ?m")
    case False
    then show ?thesis
      by (subst diffMerge.simps) (auto simp: diffFinish_def)
  next
    case True
    then have il: "i < ?l" and jm: "j < ?m" by auto
    let ?a = "ids base ! i" and ?b = "nodeId s (ixs ! j)"
    consider (lt) "?a < ?b" | (gt) "?b < ?a" | (eq) "?a = ?b" by linarith
    then show ?thesis
    proof cases
      case lt
      have notin: "?a \<notin> nodeId s ` set (drop j ixs)"
      proof
        assume "?a \<in> nodeId s ` set (drop j ixs)"
        then obtain x where "x \<in> set (drop j ixs)" "nodeId s x = ?a" by auto
        then obtain k where k: "j \<le> k" "k < ?m" "nodeId s (ixs ! k) = ?a"
          using indrop[of x j ixs] by auto
        then have "?b \<le> ?a" using nlt[of j k] by (cases "j = k") auto
        then show False using lt by simp
      qed
      have same: "\<And>k. j \<le> k \<Longrightarrow> k < ?m \<Longrightarrow>
          (nodeId s (ixs ! k) \<notin> set (drop i (ids base))) = (nodeId s (ixs ! k) \<notin> set (drop (Suc i) (ids base)))"
      proof -
        fix k assume k: "j \<le> k" "k < ?m"
        then have "?b \<le> nodeId s (ixs ! k)" using nlt[of j k] by (cases "j = k") auto
        then have ne: "nodeId s (ixs ! k) \<noteq> ?a" using lt by simp
        show "(nodeId s (ixs ! k) \<notin> set (drop i (ids base))) = (nodeId s (ixs ! k) \<notin> set (drop (Suc i) (ids base)))"
          using ne il by (simp add: Cons_nth_drop_Suc[symmetric])
      qed
      have filt: "filter (\<lambda>k. nodeId s (ixs ! k) \<notin> set (drop i (ids base))) [j..<?m]
          = filter (\<lambda>k. nodeId s (ixs ! k) \<notin> set (drop (Suc i) (ids base))) [j..<?m]"
        by (rule filter_cong) (use same in auto)
      show ?thesis
        using "1.IH"(1)[OF True refl lt "1.prems"] True lt notin
        by (subst diffMerge.simps) (simp add: filter_upt_Cons[OF il] filt)
    next
      case gt
      have notin: "?b \<notin> set (drop i (ids base))"
      proof
        assume "?b \<in> set (drop i (ids base))"
        then obtain k where k: "i \<le> k" "k < ?l" "ids base ! k = ?b"
          using indrop[of "?b" i "ids base"] by auto
        then have "?a \<le> ?b" using idlt[of i k] by (cases "i = k") auto
        then show False using gt by simp
      qed
      have same: "\<And>k. i \<le> k \<Longrightarrow> k < ?l \<Longrightarrow>
          (ids base ! k \<notin> nodeId s ` set (drop j ixs)) = (ids base ! k \<notin> nodeId s ` set (drop (Suc j) ixs))"
      proof -
        fix k assume k: "i \<le> k" "k < ?l"
        then have "?a \<le> ids base ! k" using idlt[of i k] by (cases "i = k") auto
        then have ne: "ids base ! k \<noteq> ?b" using gt by simp
        show "(ids base ! k \<notin> nodeId s ` set (drop j ixs)) = (ids base ! k \<notin> nodeId s ` set (drop (Suc j) ixs))"
          using ne jm by (auto simp add: Cons_nth_drop_Suc[symmetric])
      qed
      have filt: "filter (\<lambda>k. ids base ! k \<notin> nodeId s ` set (drop j ixs)) [i..<?l]
          = filter (\<lambda>k. ids base ! k \<notin> nodeId s ` set (drop (Suc j) ixs)) [i..<?l]"
        by (rule filter_cong) (use same in auto)
      have ngt: "\<not> ?a < ?b" using gt by simp
      show ?thesis
        using "1.IH"(2)[OF True refl ngt gt "1.prems"] True gt ngt notin
        by (subst diffMerge.simps) (simp add: filter_upt_Cons[OF jm] filt fold_diffRemove_diffAdd)
    next
      case eq
      have inA: "?a \<in> nodeId s ` set (drop j ixs)"
        using eq jm by (metis Cons_nth_drop_Suc image_eqI list.set_intros(1))
      have inB: "?b \<in> set (drop i (ids base))"
        using eq il by (metis Cons_nth_drop_Suc list.set_intros(1))
      have sameA: "\<And>k. Suc i \<le> k \<Longrightarrow> k < ?l \<Longrightarrow>
          (ids base ! k \<notin> nodeId s ` set (drop j ixs)) = (ids base ! k \<notin> nodeId s ` set (drop (Suc j) ixs))"
      proof -
        fix k assume k: "Suc i \<le> k" "k < ?l"
        then have "?a < ids base ! k" using idlt[of i k] by auto
        then have ne: "ids base ! k \<noteq> ?b" using eq by simp
        show "(ids base ! k \<notin> nodeId s ` set (drop j ixs)) = (ids base ! k \<notin> nodeId s ` set (drop (Suc j) ixs))"
          using ne jm by (auto simp add: Cons_nth_drop_Suc[symmetric])
      qed
      have sameB: "\<And>k. Suc j \<le> k \<Longrightarrow> k < ?m \<Longrightarrow>
          (nodeId s (ixs ! k) \<notin> set (drop i (ids base))) = (nodeId s (ixs ! k) \<notin> set (drop (Suc i) (ids base)))"
      proof -
        fix k assume k: "Suc j \<le> k" "k < ?m"
        then have "?b < nodeId s (ixs ! k)" using nlt[of j k] by auto
        then have ne: "nodeId s (ixs ! k) \<noteq> ?a" using eq by simp
        show "(nodeId s (ixs ! k) \<notin> set (drop i (ids base))) = (nodeId s (ixs ! k) \<notin> set (drop (Suc i) (ids base)))"
          using ne il by (simp add: Cons_nth_drop_Suc[symmetric])
      qed
      have filtA: "filter (\<lambda>k. ids base ! k \<notin> nodeId s ` set (drop j ixs)) [Suc i..<?l]
          = filter (\<lambda>k. ids base ! k \<notin> nodeId s ` set (drop (Suc j) ixs)) [Suc i..<?l]"
        by (rule filter_cong) (use sameA in auto)
      have filtB: "filter (\<lambda>k. nodeId s (ixs ! k) \<notin> set (drop i (ids base))) [Suc j..<?m]
          = filter (\<lambda>k. nodeId s (ixs ! k) \<notin> set (drop (Suc i) (ids base))) [Suc j..<?m]"
        by (rule filter_cong) (use sameB in auto)
      have n1: "\<not> ?a < ?b" and n2: "\<not> ?b < ?a" using eq by auto
      show ?thesis
        using "1.IH"(3)[OF True refl n1 n2 "1.prems"] True n1 n2 inA inB
        by (subst diffMerge.simps) (simp add: filter_upt_Cons[OF il] filter_upt_Cons[OF jm] filtA filtB)
    qed
  qed
qed


lemma diffMerge_positions:
  assumes "sorted_wrt (<) (ids base)" "sorted_wrt (<) (map (nodeId s) ixs)"
  shows "diffFinish s base ixs (diffMerge s base ixs 0 0 d) =
     fold (diffAdd s ixs) (addedPositions s base ixs)
       (fold (diffRemove base) (removedPositions s base ixs) d)"
  using diffMerge_finish[OF assms, of 0 0 d]
  by (simp add: addedPositions_def removedPositions_def)

text \<open>
  Claim C8. For aggregates whose ids are strictly increasing (node ids are unique in a
  snapshot), \<^verbatim>\<open>calculateDiffForClass\<close> records as removed exactly the base entries
  whose id is absent from the new aggregate (with the base self sizes), as added exactly
  the new nodes whose id is absent from the base (with their own self sizes), leaves
  equal ids out, sets both deltas to added minus removed, and returns \<^verbatim>\<open>null\<close>
  exactly when nothing was added and nothing removed.
\<close>

theorem calculateDiffForClass_two_pointer_merge:
  assumes "sorted_wrt (<) (ids base)"
    and "sorted_wrt (<) (map (nodeId s) (aggregateIdxs aggregate))"
    and "length (indexes base) = length (ids base)"
    and "length (selfSizes base) = length (ids base)"
  shows "calculateDiffForClass s base aggregate =
    (let ixs = aggregateIdxs aggregate;
         removed = removedPositions s base ixs;
         added = addedPositions s base ixs
     in if added = [] \<and> removed = [] then None
        else Some \<lparr>addedCount = length added,
          removedCount = length removed,
          addedSize = sum_list (map (\<lambda>j. nodeSelfSize s (ixs ! j)) added),
          removedSize = sum_list (map (\<lambda>k. selfSizes base ! k) removed),
          deletedIndexes = map (\<lambda>k. indexes base ! k) removed,
          addedIndexes = map (\<lambda>j. ixs ! j) added,
          countDelta = int (length added) - int (length removed),
          sizeDelta = int (sum_list (map (\<lambda>j. nodeSelfSize s (ixs ! j)) added))
            - int (sum_list (map (\<lambda>k. selfSizes base ! k) removed))\<rparr>)"
proof -
  let ?ixs = "aggregateIdxs aggregate"
  obtain i j d1 where m: "diffMerge s base ?ixs 0 0 newDiff = (i, j, d1)"
    by (cases "diffMerge s base ?ixs 0 0 newDiff") auto
  have fin: "fold (diffAdd s ?ixs) [j..<length ?ixs] (fold (diffRemove base) [i..<length (ids base)] d1)
      = fold (diffAdd s ?ixs) (addedPositions s base ?ixs)
          (fold (diffRemove base) (removedPositions s base ?ixs) newDiff)"
    using diffMerge_positions[OF assms(1,2), of newDiff] m by (simp add: diffFinish_def)
  show ?thesis
    unfolding calculateDiffForClass_def Let_def m prod.case fin
    by (simp add: fold_diffAdd fold_diffRemove newDiff_def)
qed

theorem calculateDiffForClass_two_pointer_merge_witness:
  "sorted_wrt (<) (ids diffBase)
   \<and> sorted_wrt (<) (map (nodeId diffSnapshot) (aggregateIdxs (Some diffAggregate)))
   \<and> calculateDiffForClass diffSnapshot diffBase (Some diffAggregate) =
       Some \<lparr>addedCount = 2, removedCount = 1, addedSize = 9, removedSize = 10,
         deletedIndexes = [0], addedIndexes = [18, 24], countDelta = 1, sizeDelta = - 1\<rparr>"
proof -
  have ids: "map (nodeId diffSnapshot) (aggregateIdxs (Some diffAggregate)) = [5, 7, 9, 11, 13]"
    by (simp add: diffSnapshot_def diffAggregate_def aggregateIdxs_def v8Snapshot_def
        readMeta_def nodeId_def getValue_def)
  have s1: "sorted_wrt (<) (ids diffBase)" by (simp add: diffBase_def)
  have s2: "sorted_wrt (<) (map (nodeId diffSnapshot) (aggregateIdxs (Some diffAggregate)))"
    unfolding ids by simp
  have l1: "length (indexes diffBase) = length (ids diffBase)" by (simp add: diffBase_def)
  have l2: "length (selfSizes diffBase) = length (ids diffBase)" by (simp add: diffBase_def)
  have sizes: "map (nodeSelfSize diffSnapshot) [0, 6, 12, 18, 24] = [1, 2, 3, 4, 5]"
    by (simp add: diffSnapshot_def v8Snapshot_def readMeta_def nodeSelfSize_def getValue_def)
  have idl: "nodeId diffSnapshot ` set (aggregateIdxs (Some diffAggregate)) = {5, 7, 9, 11, 13}"
    using arg_cong[OF ids, of set] by simp
  have rem: "removedPositions diffSnapshot diffBase (aggregateIdxs (Some diffAggregate)) = [0]"
    unfolding removedPositions_def idl by (simp add: diffBase_def upt_rec)
  have ixs: "aggregateIdxs (Some diffAggregate) = [0, 6, 12, 18, 24]"
    by (simp add: aggregateIdxs_def diffAggregate_def)
  have add: "addedPositions diffSnapshot diffBase (aggregateIdxs (Some diffAggregate)) = [3, 4]"
    using ids unfolding addedPositions_def ixs by (simp add: diffBase_def upt_rec)
  have sz: "nodeSelfSize diffSnapshot 18 = 4" "nodeSelfSize diffSnapshot 24 = 5"
    using sizes by simp_all
  note th = calculateDiffForClass_two_pointer_merge[OF s1 s2 l1 l2,
      unfolded Let_def ixs rem[unfolded ixs] add[unfolded ixs]]
  show ?thesis
    using th s1 s2 sz by (simp add: diffBase_def)
qed

section \<open>The initialization pass on the orphan-value snapshot\<close>

lemma thenE_Inr: "thenE (Some (Inr x)) f = f x"
  by (simp add: thenE_def)

lemma ov_allocateArrays: "allocateArrays (readMeta orphanValueSnapshot) = Inr ovAllocated"
  by code_simp

lemma ov_buildRetainers: "buildRetainers (buildEdgeIndexes ovAllocated) = Inr ovRetainers"
  by code_simp

lemma ov_propagateDOMState: "propagateDOMState ovRetainers = Some ovRetainers"
  by code_simp

lemma ov_calculateFlags: "calculateFlags ovRetainers = Some ovFlags"
  by code_simp

lemma ov_calculateDistances:
  "calculateDistances ovFlags (createBitVector (length (strings orphanValueSnapshot)))
   = Some (Inr (ovDistances, createBitVector 7))"
  by code_simp

lemma ov_buildPostOrderIndex:
  "buildPostOrderIndex ovDistances (createBitVector 7)
   = Some ([1, 2, 3, 0], [3, 0, 1, 2], createBitVector 7)"
  by code_simp

lemma ov_buildDominatorTree:
  "buildDominatorTree ovDistances [1, 2, 3, 0] [3, 0, 1, 2] (createBitVector 7)
   = Some ([0, 0, 0, 2], createBitVector 7)"
  by code_simp

lemma ov_calculateShallowSizes:
  "calculateShallowSizes (ovDistances\<lparr>dominatorsTree := [0, 0, 0, 2]\<rparr>) = Some (Inr ovDominators)"
  by code_simp

lemma ov_buildDominatedNodes:
  "buildDominatedNodes (calculateRetainedSizes ovDominators [1, 2, 3, 0]) = Inr ovFinal"
  by code_simp

lemma thenE_Inl: "thenE (Some (Inl e)) f = Some (Inl e)"
  by (simp add: thenE_def)

lemma ov_initialize: "initialize orphanValueSnapshot = Some (Inr ovFinal)"
  by (simp only: initialize_def initializePasses_def ov_allocateArrays ov_buildRetainers ov_propagateDOMState
      ov_calculateFlags ov_calculateDistances ov_buildPostOrderIndex ov_buildDominatorTree
      ov_calculateShallowSizes ov_buildDominatedNodes thenE_Inr option.map prod.case)

section \<open>The initialization pass on the snapshot with the root in the middle\<close>

lemma mr_allocateArrays: "allocateArrays (readMeta middleRootSnapshot) = Inr mrAllocated"
  by code_simp

lemma mr_buildRetainers: "buildRetainers (buildEdgeIndexes mrAllocated) = Inr mrRetainers"
  by code_simp

lemma mr_propagateDOMState: "propagateDOMState mrRetainers = Some mrRetainers"
  by code_simp

lemma mr_calculateFlags: "calculateFlags mrRetainers = Some mrFlags"
  by code_simp

lemma mr_calculateDistances:
  "calculateDistances mrFlags (createBitVector (length (strings middleRootSnapshot)))
   = Some (Inr (mrDistances, createBitVector 5))"
  by code_simp

lemma mr_buildPostOrderIndex:
  "buildPostOrderIndex mrDistances (createBitVector 5)
   = Some ([0, 2, 1], [0, 2, 1], createBitVector 5)"
  by code_simp

lemma mr_buildDominatorTree:
  "buildDominatorTree mrDistances [0, 2, 1] [0, 2, 1] (createBitVector 5)
   = Some ([1, 1, 1], createBitVector 5)"
  by code_simp

lemma mr_calculateShallowSizes:
  "calculateShallowSizes (mrDistances\<lparr>dominatorsTree := [1, 1, 1]\<rparr>) = Some (Inr mrDominators)"
  by code_simp

lemma mr_initializePasses:
  "initializePasses middleRootSnapshot = Some (Inr (calculateRetainedSizes mrDominators [0, 2, 1]))"
  by (simp only: initializePasses_def mr_allocateArrays mr_buildRetainers mr_propagateDOMState
      mr_calculateFlags mr_calculateDistances mr_buildPostOrderIndex mr_buildDominatorTree
      mr_calculateShallowSizes thenE_Inr option.map prod.case)

lemma mb_buildRetainers:
  "isl (allocateArrays (readMeta middleRootBadEdge)) = False"
  "buildRetainers (buildEdgeIndexes (projr (allocateArrays (readMeta middleRootBadEdge))))
   = Inl (InvalidToNodeIndex 13)"
  by code_simp+

lemma mb_initialize: "initialize middleRootBadEdge = Some (Inl (InvalidToNodeIndex 13))"
proof -
  from mb_buildRetainers(1) obtain s1 where
    a: "allocateArrays (readMeta middleRootBadEdge) = Inr s1"
    by (cases "allocateArrays (readMeta middleRootBadEdge)") simp_all
  then have "projr (allocateArrays (readMeta middleRootBadEdge)) = s1" by simp
  with mb_buildRetainers(2) have
    b: "buildRetainers (buildEdgeIndexes s1) = Inl (InvalidToNodeIndex 13)" by simp
  show ?thesis
    by (simp only: initialize_def initializePasses_def a b thenE_Inr thenE_Inl)
qed

section \<open>The essential-edge predicate\<close>

lemma indexOf_nonneg_nth:
  "0 \<le> indexOf xs x \<Longrightarrow> nat (indexOf xs x) < length xs \<and> xs ! nat (indexOf xs x) = x"
proof (induction xs)
  case Nil
  then show ?case by simp
next
  case (Cons y ys)
  show ?case
  proof (cases "y = x")
    case True
    then show ?thesis by simp
  next
    case False
    with Cons.prems have nn: "0 \<le> indexOf ys x"
      by (simp add: Let_def split: if_splits)
    with Cons.IH have "nat (indexOf ys x) < length ys \<and> ys ! nat (indexOf ys x) = x" by simp
    with False nn show ?thesis by (simp add: Let_def nat_add_distrib)
  qed
qed

lemma indexOf_lower: "- 1 \<le> indexOf xs x"
  by (induction xs) (auto simp: Let_def)

lemma indexOf_distinct_codes:
  assumes "int k = indexOf xs a" and "int k = indexOf xs b"
  shows "a = b"
proof -
  have "0 \<le> indexOf xs a" "0 \<le> indexOf xs b" using assms by linarith+
  then have "xs ! nat (indexOf xs a) = a" "xs ! nat (indexOf xs b) = b"
    using indexOf_nonneg_nth[of xs a] indexOf_nonneg_nth[of xs b] by simp_all
  moreover have "nat (indexOf xs a) = k" "nat (indexOf xs b) = k"
    using assms by linarith+
  ultimately show ?thesis by simp
qed

lemma cacheSound_createBitVector: "cacheSound s (createBitVector n)"
  by (auto simp: cacheSound_def createBitVector_def getBit_def)

lemma cacheSound_setBit:
  assumes "cacheSound s c" and "ephemeronNameMatch (strings s ! i) = None"
  shows "cacheSound s (setBit c i)"
  unfolding cacheSound_def
proof (intro allI impI)
  fix k assume "getBit (setBit c i) k"
  then have "k = i \<or> getBit c k"
    by (cases "k = i") (auto simp: getBit_def setBit_def)
  then show "ephemeronNameMatch (strings s ! k) = None"
    using assms by (auto simp: cacheSound_def)
qed

lemma tryParseWeakMapEdgeName_sound:
  assumes "cacheSound s c"
  shows "fst (tryParseWeakMapEdgeName s c i) = ephemeronNameMatch (strings s ! i)"
    and "cacheSound s (snd (tryParseWeakMapEdgeName s c i))"
proof -
  show "fst (tryParseWeakMapEdgeName s c i) = ephemeronNameMatch (strings s ! i)"
    using assms by (auto simp: tryParseWeakMapEdgeName_def cacheSound_def split: option.splits)
  show "cacheSound s (snd (tryParseWeakMapEdgeName s c i))"
    using assms cacheSound_setBit[OF assms, of i]
    by (auto simp: tryParseWeakMapEdgeName_def split: option.splits)
qed

lemma isEssentialEdge_cacheSound:
  assumes "cacheSound s c"
  shows "cacheSound s (snd (isEssentialEdge s c nodeIndex edgeIndex))"
proof -
  note t = tryParseWeakMapEdgeName_sound[OF assms, of "edgeNameOrIndex s edgeIndex"]
  show ?thesis
    using t assms
    by (cases "tryParseWeakMapEdgeName s c (edgeNameOrIndex s edgeIndex)")
      (auto simp: isEssentialEdge_def Let_def split: option.splits)
qed

lemma edgeTypeCodes_readMeta: "edgeTypeCodes (readMeta s)"
  by (simp add: edgeTypeCodes_def readMeta_def)

text \<open>A name with the line separator U+2028 in its key part is not an ephemeron name.\<close>

lemma ephemeronNameMatch_line_separator:
  "ephemeronNameMatch (''0 / part of key (K'' @ [CHR 0xE2, CHR 0x80, CHR 0xA8]
      @ '' @5) -> value (V @7) pair in WeakMap (table @3)'') = None"
  by code_simp

text \<open>
  Claim C4. Once \<^verbatim>\<open>initialize()\<close> has set the edge type codes, and with a cache that
  records only names that do not match (the constructor's empty cache does, and every
  call keeps it so), \<^verbatim>\<open>isEssentialEdge\<close> answers: false for
  a weak edge; for a shortcut, whether the source is the root; for an internal edge
  whose name matches the WeakMap pair pattern, whether the source node's id differs
  from the table id of the name; true otherwise.
\<close>

theorem isEssentialEdge_cases:
  assumes "cacheSound s c" and "edgeTypeCodes s"
  shows "fst (isEssentialEdge s c nodeIndex edgeIndex) =
    (if int (edgeRawType s edgeIndex) = edgeWeakType s then False
     else if int (edgeRawType s edgeIndex) = edgeShortcutType s
       then nodeIndex = rootNodeIndexInternal s
     else if int (edgeRawType s edgeIndex) = edgeInternalType s
              \<and> ephemeronNameMatch (strings s ! edgeNameOrIndex s edgeIndex) \<noteq> None
       then nodeId s nodeIndex
              \<noteq> parseInt10 (snd (the (ephemeronNameMatch (strings s ! edgeNameOrIndex s edgeIndex))))
     else True)"
proof -
  let ?t = "edgeRawType s edgeIndex"
  have iw: "int ?t = edgeInternalType s \<Longrightarrow> int ?t \<noteq> edgeWeakType s"
    using indexOf_distinct_codes[of ?t "edgeTypes s" "''internal''" "''weak''"] assms(2)
    by (auto simp: edgeTypeCodes_def)
  have isc: "int ?t = edgeInternalType s \<Longrightarrow> int ?t \<noteq> edgeShortcutType s"
    using indexOf_distinct_codes[of ?t "edgeTypes s" "''internal''" "''shortcut''"] assms(2)
    by (auto simp: edgeTypeCodes_def)
  note t = tryParseWeakMapEdgeName_sound(1)[OF assms(1), of "edgeNameOrIndex s edgeIndex"]
  show ?thesis
  proof (cases "int ?t = edgeInternalType s")
    case True
    show ?thesis
      using t True iw[OF True] isc[OF True]
      by (cases "tryParseWeakMapEdgeName s c (edgeNameOrIndex s edgeIndex)")
        (auto simp: isEssentialEdge_def Let_def split: option.splits)
  next
    case False
    then show ?thesis by (auto simp: isEssentialEdge_def Let_def)
  qed
qed

theorem isEssentialEdge_cases_witness:
  "cacheSound weakMapSnapshot (createBitVector 7) \<and> edgeTypeCodes weakMapSnapshot
   \<and> fst (isEssentialEdge weakMapSnapshot (createBitVector 7) 6 6) = False
   \<and> fst (isEssentialEdge weakMapSnapshot (createBitVector 7) 12 9) = True"
proof -
  have tc: "edgeTypeCodes weakMapSnapshot"
    unfolding weakMapSnapshot_def v8Snapshot_def by (rule edgeTypeCodes_readMeta)
  note table = isEssentialEdge_cases[OF cacheSound_createBitVector tc, of 7 6 6]
  note key = isEssentialEdge_cases[OF cacheSound_createBitVector tc, of 7 12 9]
  have codes: "edgeInternalType weakMapSnapshot = 3" "edgeWeakType weakMapSnapshot = 6"
    "edgeShortcutType weakMapSnapshot = 5"
    by code_simp+
  have edges: "edgeRawType weakMapSnapshot 6 = 3" "edgeRawType weakMapSnapshot 9 = 3"
    "edgeNameOrIndex weakMapSnapshot 6 = 6" "edgeNameOrIndex weakMapSnapshot 9 = 6"
    "nodeId weakMapSnapshot 6 = 3" "nodeId weakMapSnapshot 12 = 5"
    by code_simp+
  have name: "ephemeronNameMatch (strings weakMapSnapshot ! 6) =
      Some ('' / part of key (K @5) -> value (V @7) pair in WeakMap (table @3)'', ''3'')"
    by code_simp
  have tid: "parseInt10 ''3'' = 3" by (simp add: parseInt10_def)
  show ?thesis
    using table key cacheSound_createBitVector[of weakMapSnapshot 7] tc
    by (simp add: codes edges name tid)
qed

section \<open>Dominated nodes and the position of the root\<close>

lemma rootFrame_refl: "rootFrame s s"
  by (simp add: rootFrame_def)

lemma rootFrame_trans: "rootFrame a b \<Longrightarrow> rootFrame b c \<Longrightarrow> rootFrame a c"
  by (simp add: rootFrame_def)

lemma rootFrame_misplaced: "rootFrame s s' \<Longrightarrow> rootMisplaced s \<Longrightarrow> rootMisplaced s'"
  by (simp add: rootFrame_def rootMisplaced_def nodeCount_def)

lemma rootFrame_allocateArrays: "allocateArrays s = Inr s' \<Longrightarrow> rootFrame s s'"
  by (auto simp: allocateArrays_def rootFrame_def split: if_splits)

lemma rootFrame_buildEdgeIndexes: "rootFrame s (buildEdgeIndexes s)"
  by (simp add: buildEdgeIndexes_def rootFrame_def Let_def split: prod.splits)

lemma rootFrame_buildRetainers: "buildRetainers s = Inr s' \<Longrightarrow> rootFrame s s'"
  by (auto simp: buildRetainers_def rootFrame_def Let_def split: sum.splits prod.splits)

lemma rootFrame_setDetachedness: "rootFrame s (setDetachedness s i st)"
  by (simp add: setDetachedness_def rootFrame_def Let_def setValue_def)

lemma rootFrame_addDetachedPrefix:
  "rootFrame s (domSnap w) \<Longrightarrow> rootFrame s (domSnap (addDetachedPrefixToNodeName w i))"
  by (auto simp: addDetachedPrefixToNodeName_def rootFrame_def Let_def setValue_def
      split: option.splits)

lemma rootFrame_processNode:
  assumes "rootFrame s (domSnap w)"
  shows "rootFrame s (domSnap (processNode w v st))"
proof -
  have a: "rootFrame s (setDetachedness (domSnap w) i x)" for i x
    using assms rootFrame_setDetachedness[of "domSnap w" i x] rootFrame_trans by blast
  have b: "rootFrame s (domSnap (addDetachedPrefixToNodeName
      (w\<lparr>domSnap := setDetachedness (domSnap w) i x\<rparr>) i))" for i x
    by (rule rootFrame_addDetachedPrefix) (simp add: a)
  show ?thesis
    using assms a b by (simp add: processNode_def Let_def)
qed

lemma rootFrame_propagateState:
  assumes "rootFrame s (domSnap w)"
  shows "rootFrame s (domSnap (propagateState w p st))"
  unfolding propagateState_def
  by (rule fold_invariant[where I = "\<lambda>w. rootFrame s (domSnap w)"])
    (auto simp: assms Let_def rootFrame_processNode)

lemma rootFrame_domSeeded: "rootFrame s (domSnap (domSeeded s))"
  unfolding domSeeded_def
  by (rule fold_invariant[where I = "\<lambda>w. rootFrame s (domSnap w)"])
    (auto simp: seedNode_def Let_def rootFrame_processNode rootFrame_refl)

lemma rootFrame_propagateDOMState:
  assumes "propagateDOMState s = Some s'"
  shows "rootFrame s s'"
proof (cases "nodeDetachednessAndClassIndexOffset s = - 1")
  case True
  with assms show ?thesis by (simp add: propagateDOMState_def rootFrame_refl)
next
  case False
  with assms obtain w2 w3 where
    w2: "whileLoop (\<lambda>w. attached w \<noteq> []) attachedStep (domSeeded s) = Some w2" and
    w3: "whileLoop (\<lambda>w. detached w \<noteq> []) detachedStep w2 = Some w3" and
    s': "s' = domSnap w3"
    by (auto simp: propagateDOMState_def split: option.splits)
  have i2: "rootFrame s (domSnap w2)"
    using whileLoop_invariant[OF w2, where I = "\<lambda>w. rootFrame s (domSnap w)"]
    by (simp add: rootFrame_domSeeded attachedStep_def rootFrame_propagateState)
  have "rootFrame s (domSnap w3)"
    using whileLoop_invariant[OF w3, where I = "\<lambda>w. rootFrame s (domSnap w)"] i2
    by (simp add: detachedStep_def Let_def rootFrame_propagateState)
  with s' show ?thesis by simp
qed

lemma rootFrame_calculateFlags: "calculateFlags s = Some s' \<Longrightarrow> rootFrame s s'"
  by (auto simp: calculateFlags_def markQueriableHeapObjects_def markPageOwnedNodes_def
      markDetachedDOMTreeNodes_def rootFrame_def bind_eq_Some_conv split: option.splits prod.splits)

lemma rootFrame_calculateDistances:
  "calculateDistances s c = Some (Inr (s', c')) \<Longrightarrow> rootFrame s s'"
  by (auto simp: calculateDistances_def thenE_def rootFrame_def split: option.splits sum.splits)

lemma length_transferSize: "length (transferSize s owners i ns) = length ns"
  by (simp add: transferSize_def Let_def setValue_def)

lemma rootFrame_calculateShallowSizes:
  assumes "calculateShallowSizes s = Some (Inr s')"
  shows "rootFrame s s'"
proof -
  have "length (fold (transferSize s owners) xs ns) = length ns" for owners xs ns
    by (induction xs arbitrary: ns) (simp_all add: length_transferSize)
  with assms show ?thesis
    by (auto simp: calculateShallowSizes_def rootFrame_def split: if_splits option.splits)
qed

lemma rootFrame_calculateRetainedSizes: "rootFrame s (calculateRetainedSizes s po2n)"
  by (simp add: calculateRetainedSizes_def rootFrame_def Let_def)

lemma buildDominatedNodes_misplaced:
  "rootMisplaced s \<Longrightarrow> buildDominatedNodes s = Inl RootNodeIsExpectedToBeEitherFirstOrLast"
  by (simp add: buildDominatedNodes_def rootMisplaced_def)

lemma initializePasses_rootFrame:
  assumes ok: "initializePasses s0 = Some (Inr s9)"
  shows "rootFrame (readMeta s0) s9"
proof -
  from ok obtain s1 where s1: "allocateArrays (readMeta s0) = Inr s1"
    by (cases "allocateArrays (readMeta s0)") (auto simp: initializePasses_def thenE_def)
  from ok s1 obtain s2 where s2: "buildRetainers (buildEdgeIndexes s1) = Inr s2"
    by (cases "buildRetainers (buildEdgeIndexes s1)") (auto simp: initializePasses_def thenE_def)
  from ok s1 s2 obtain s3 where s3: "propagateDOMState s2 = Some s3"
    by (cases "propagateDOMState s2") (auto simp: initializePasses_def thenE_def)
  from ok s1 s2 s3 obtain s4 where s4: "calculateFlags s3 = Some s4"
    by (cases "calculateFlags s3") (auto simp: initializePasses_def thenE_def)
  let ?c = "createBitVector (length (strings s0))"
  from ok s1 s2 s3 s4 obtain s5 c5 where s5: "calculateDistances s4 ?c = Some (Inr (s5, c5))"
    by (cases "calculateDistances s4 ?c") (auto simp: initializePasses_def thenE_def split: sum.splits)
  from ok s1 s2 s3 s4 s5 obtain po2n n2po c6 where
    po: "buildPostOrderIndex s5 c5 = Some (po2n, n2po, c6)"
    by (cases "buildPostOrderIndex s5 c5") (auto simp: initializePasses_def thenE_def)
  from ok s1 s2 s3 s4 s5 po obtain tree c7 where
    dt: "buildDominatorTree s5 po2n n2po c6 = Some (tree, c7)"
    by (cases "buildDominatorTree s5 po2n n2po c6") (auto simp: initializePasses_def thenE_def)
  from ok s1 s2 s3 s4 s5 po dt obtain s8 where
    s8: "calculateShallowSizes (s5\<lparr>dominatorsTree := tree\<rparr>) = Some (Inr s8)"
    by (cases "calculateShallowSizes (s5\<lparr>dominatorsTree := tree\<rparr>)")
      (auto simp: initializePasses_def thenE_def split: sum.splits)
  from ok s1 s2 s3 s4 s5 po dt s8 have
    fin: "s9 = calculateRetainedSizes s8 po2n"
    by (simp add: initializePasses_def thenE_def)
  have "rootFrame (readMeta s0) s5"
    using rootFrame_allocateArrays[OF s1] rootFrame_buildEdgeIndexes[of s1]
      rootFrame_buildRetainers[OF s2] rootFrame_propagateDOMState[OF s3]
      rootFrame_calculateFlags[OF s4] rootFrame_calculateDistances[OF s5]
    by (simp add: rootFrame_def)
  moreover have "rootFrame s5 (s5\<lparr>dominatorsTree := tree\<rparr>)" by (simp add: rootFrame_def)
  ultimately show ?thesis
    using rootFrame_calculateShallowSizes[OF s8] rootFrame_calculateRetainedSizes[of s8 po2n] fin
    by (simp add: rootFrame_def)
qed

lemma initialize_misplaced:
  assumes "rootMisplaced (readMeta s0)"
  shows "initialize s0 =
    (case initializePasses s0 of
       None \<Rightarrow> None
     | Some (Inl e) \<Rightarrow> Some (Inl e)
     | Some (Inr s9) \<Rightarrow> Some (Inl RootNodeIsExpectedToBeEitherFirstOrLast))"
proof (cases "initializePasses s0")
  case None
  then show ?thesis by (simp add: initialize_def thenE_def)
next
  case (Some r)
  show ?thesis
  proof (cases r)
    case (Inl e)
    with Some show ?thesis by (simp add: initialize_def thenE_def)
  next
    case (Inr s9)
    with Some have "rootMisplaced s9"
      using initializePasses_rootFrame[of s0 s9] assms rootFrame_misplaced by blast
    with Some Inr show ?thesis
      by (simp add: initialize_def thenE_def buildDominatedNodes_misplaced)
  qed
qed

text \<open>
  Claim C10, as the code has it. When the root is neither the first nor the last node,
  \<^verbatim>\<open>buildDominatedNodes\<close> throws "Root node is expected to be either first or last",
  so it builds the dominated-children index only for a root that is first or last. No
  pass before it moves the root or changes the number of nodes, so for such a snapshot
  \<^verbatim>\<open>initialize()\<close> ends as follows: if the passes before \<^verbatim>\<open>buildDominatedNodes\<close> all
  complete, with that error; if one of them throws, with the error of that pass; if one
  of them does not return, it does not return.
\<close>

theorem initialize_root_first_or_last:
  "(rootMisplaced s \<longrightarrow> buildDominatedNodes s = Inl RootNodeIsExpectedToBeEitherFirstOrLast)
   \<and> ((\<exists>s'. buildDominatedNodes s = Inr s') \<longrightarrow> \<not> rootMisplaced s)
   \<and> (rootMisplaced (readMeta s) \<longrightarrow>
        initialize s =
          (case initializePasses s of
             None \<Rightarrow> None
           | Some (Inl e) \<Rightarrow> Some (Inl e)
           | Some (Inr s9) \<Rightarrow> Some (Inl RootNodeIsExpectedToBeEitherFirstOrLast)))"
  using buildDominatedNodes_misplaced[of s] initialize_misplaced[of s]
  by auto

theorem initialize_root_first_or_last_witness:
  "rootMisplaced (calculateRetainedSizes mrDominators [0, 2, 1])
   \<and> buildDominatedNodes (calculateRetainedSizes mrDominators [0, 2, 1])
       = Inl RootNodeIsExpectedToBeEitherFirstOrLast
   \<and> rootMisplaced (readMeta middleRootSnapshot)
   \<and> initializePasses middleRootSnapshot = Some (Inr (calculateRetainedSizes mrDominators [0, 2, 1]))
   \<and> initialize middleRootSnapshot = Some (Inl RootNodeIsExpectedToBeEitherFirstOrLast)
   \<and> (\<exists>s'. buildDominatedNodes (calculateRetainedSizes wmDominators [1, 3, 2, 0]) = Inr s')
   \<and> \<not> rootMisplaced (calculateRetainedSizes wmDominators [1, 3, 2, 0])"
proof -
  have m: "rootMisplaced (calculateRetainedSizes mrDominators [0, 2, 1])" by code_simp
  have m': "rootMisplaced (readMeta middleRootSnapshot)" by code_simp
  have b: "isl (buildDominatedNodes (calculateRetainedSizes wmDominators [1, 3, 2, 0])) = False"
    by code_simp
  then have b': "\<exists>s'. buildDominatedNodes (calculateRetainedSizes wmDominators [1, 3, 2, 0]) = Inr s'"
    by (cases "buildDominatedNodes (calculateRetainedSizes wmDominators [1, 3, 2, 0])") simp_all
  show ?thesis
    using initialize_root_first_or_last[of "calculateRetainedSizes mrDominators [0, 2, 1]"]
      initialize_root_first_or_last[of middleRootSnapshot]
      initialize_root_first_or_last[of "calculateRetainedSizes wmDominators [1, 3, 2, 0]"]
      m m' b' mr_initializePasses
    by simp
qed

text \<open>
  The claim as stated has \<^verbatim>\<open>buildDominatedNodes\<close> throw for every such snapshot. When an
  edge of the snapshot points into the middle of a node, \<^verbatim>\<open>buildRetainers\<close> throws
  "Invalid toNodeIndex" first and \<^verbatim>\<open>buildDominatedNodes\<close> is never reached.
\<close>

theorem initialize_root_first_or_last_counterexample:
  "rootMisplaced (readMeta middleRootBadEdge)
   \<and> initialize middleRootBadEdge = Some (Inl (InvalidToNodeIndex 13))"
proof -
  have "rootMisplaced (readMeta middleRootBadEdge)" by code_simp
  then show ?thesis using mb_initialize by simp
qed

section \<open>Shallow sizes: the two early exits\<close>

lemma strided_empty: "strided i i step = []"
  by (subst strided.simps) simp

lemma v8Snapshot_fields:
  "nodeFieldCount (v8Snapshot ns es strs) = 6"
  "edgeFieldsCount (v8Snapshot ns es strs) = 3"
  "nodeTypeOffset (v8Snapshot ns es strs) = 0"
  "edgeToNodeOffset (v8Snapshot ns es strs) = 2"
  "nodeSyntheticType (v8Snapshot ns es strs) = 9"
  "rootNodeIndexInternal (v8Snapshot ns es strs) = 0"
  "nodes (v8Snapshot ns es strs) = ns"
  "containmentEdges (v8Snapshot ns es strs) = es"
  by (simp_all add: v8Snapshot_def readMeta_def)

text \<open>
  Claim C9, as the code has it. Without user roots \<^verbatim>\<open>calculateShallowSizes\<close> returns
  and leaves every buffer as it was; with user roots and \<open>0xFFFFFFFE\<close> nodes or more it
  throws "Too many nodes for calculateShallowSizes" before it touches anything. The
  test for user roots comes first.
\<close>

theorem calculateShallowSizes_early_exits:
  "(\<not> hasUserRoots s \<longrightarrow> calculateShallowSizes s = Some (Inr s))
   \<and> (hasUserRoots s \<and> nodeCount s \<ge> 0xfffffffe \<longrightarrow>
        calculateShallowSizes s = Some (Inl TooManyNodesForCalculateShallowSizes))"
  by (simp add: calculateShallowSizes_def kHasMultipleOwners_def)

lemma hugeRootlessSnapshot_facts:
  "nodeCount hugeRootlessSnapshot = 0xfffffffe" "\<not> hasUserRoots hugeRootlessSnapshot"
  by (simp_all add: hugeRootlessSnapshot_def nodeCount_def hasUserRoots_def nodeEdges_def
      rootNodeOrdinal_def v8Snapshot_fields strided_empty)

lemma hugeSnapshot_facts:
  "nodeCount hugeSnapshot = 0xfffffffe" "hasUserRoots hugeSnapshot"
proof -
  show "nodeCount hugeSnapshot = 0xfffffffe"
    by (simp add: hugeSnapshot_def nodeCount_def v8Snapshot_fields)
  have e: "nodeEdges hugeSnapshot (rootNodeOrdinal hugeSnapshot) = [0]"
    by (simp add: hugeSnapshot_def nodeEdges_def rootNodeOrdinal_def v8Snapshot_fields
        strided.simps[of 0] strided_empty)
  have "\<not> isSynthetic hugeSnapshot (edgeNodeIndex hugeSnapshot 0)"
    by (simp add: hugeSnapshot_def isSynthetic_def edgeNodeIndex_def nodeRawType_def
        getValue_def v8Snapshot_fields nth_append)
  then show "hasUserRoots hugeSnapshot"
    by (simp add: hasUserRoots_def e isUserRoot_def nodeIsUserRoot_def)
qed

theorem calculateShallowSizes_early_exits_witness:
  "\<not> hasUserRoots hugeRootlessSnapshot
   \<and> calculateShallowSizes hugeRootlessSnapshot = Some (Inr hugeRootlessSnapshot)
   \<and> hasUserRoots hugeSnapshot \<and> nodeCount hugeSnapshot \<ge> 0xfffffffe
   \<and> calculateShallowSizes hugeSnapshot = Some (Inl TooManyNodesForCalculateShallowSizes)"
  using calculateShallowSizes_early_exits[of hugeRootlessSnapshot]
    calculateShallowSizes_early_exits[of hugeSnapshot]
    hugeRootlessSnapshot_facts hugeSnapshot_facts
  by simp

text \<open>
  The claim as stated fails where its two cases meet: a snapshot of \<open>0xFFFFFFFE\<close> nodes
  without user roots is returned unchanged, no error is thrown.
\<close>

theorem calculateShallowSizes_too_many_nodes_counterexample:
  "nodeCount hugeRootlessSnapshot \<ge> 0xfffffffe
   \<and> calculateShallowSizes hugeRootlessSnapshot = Some (Inr hugeRootlessSnapshot)"
  using hugeRootlessSnapshot_facts
  by (simp add: calculateShallowSizes_def)

section \<open>Retained sizes\<close>

lemma fold_store_nth:
  assumes "k \<le> length rs"
  shows "length (fold (\<lambda>v r. r[v := f v]) [0..<k] rs) = length rs
    \<and> (\<forall>v<k. fold (\<lambda>v r. r[v := f v]) [0..<k] rs ! v = f v)"
  using assms
proof (induction k)
  case 0
  then show ?case by simp
next
  case (Suc k)
  then show ?case by (auto simp: nth_list_update)
qed

text \<open>One step of the second loop of \<^verbatim>\<open>calculateRetainedSizes\<close>.\<close>

lemma retained_step_mono:
  "length (r[d := r ! d + r ! v]) = length r \<and> (\<forall>x<length r. (r::nat list) ! x \<le> r[d := r ! d + r ! v] ! x)"
proof (intro conjI allI impI)
  fix x assume "x < length r"
  then show "r ! x \<le> r[d := r ! d + r ! v] ! x" by (cases "x = d") simp_all
qed simp

lemma retained_fold_mono:
  fixes r0 :: "nat list"
  shows "length (fold (\<lambda>i r. r[tree ! (po ! i) := r ! (tree ! (po ! i)) + r ! (po ! i)]) is r0) = length r0
    \<and> (\<forall>x<length r0. r0 ! x \<le> fold (\<lambda>i r. r[tree ! (po ! i) := r ! (tree ! (po ! i)) + r ! (po ! i)]) is r0 ! x)"
proof (induction "is" arbitrary: r0)
  case Nil
  then show ?case by simp
next
  case (Cons i "is")
  let ?r1 = "r0[tree ! (po ! i) := r0 ! (tree ! (po ! i)) + r0 ! (po ! i)]"
  from Cons[of ?r1] retained_step_mono[of r0 "tree ! (po ! i)" "po ! i"]
  show ?case by (auto intro: order_trans)
qed

lemma sum_over_update:
  fixes r :: "nat list"
  assumes d: "distinct po" and j0: "j0 \<in> S" "S \<subseteq> {..<length po}" "finite S" and lt: "po ! j0 < length r"
  shows "(\<Sum>j\<in>S. r[po ! j0 := x] ! (po ! j)) + r ! (po ! j0) = (\<Sum>j\<in>S. r ! (po ! j)) + x"
proof -
  have other: "\<And>j. j \<in> S - {j0} \<Longrightarrow> r[po ! j0 := x] ! (po ! j) = r ! (po ! j)"
  proof -
    fix j assume "j \<in> S - {j0}"
    then have "j < length po" "j0 < length po" "j \<noteq> j0" using j0 by auto
    then have "po ! j \<noteq> po ! j0" using d by (simp add: nth_eq_iff_index_eq)
    then show "r[po ! j0 := x] ! (po ! j) = r ! (po ! j)" by simp
  qed
  have "(\<Sum>j\<in>S. r[po ! j0 := x] ! (po ! j)) = x + (\<Sum>j\<in>S - {j0}. r[po ! j0 := x] ! (po ! j))"
    using sum.remove[OF j0(3) j0(1), of "\<lambda>j. r[po ! j0 := x] ! (po ! j)"] lt by simp
  also have "(\<Sum>j\<in>S - {j0}. r[po ! j0 := x] ! (po ! j)) = (\<Sum>j\<in>S - {j0}. r ! (po ! j))"
    using other by (intro sum.cong) auto
  finally have "(\<Sum>j\<in>S. r[po ! j0 := x] ! (po ! j)) + r ! (po ! j0)
      = x + (r ! (po ! j0) + (\<Sum>j\<in>S - {j0}. r ! (po ! j)))" by simp
  also have "r ! (po ! j0) + (\<Sum>j\<in>S - {j0}. r ! (po ! j)) = (\<Sum>j\<in>S. r ! (po ! j))"
    using sum.remove[OF j0(3) j0(1), of "\<lambda>j. r ! (po ! j)"] by simp
  finally show ?thesis by simp
qed

lemma retained_fold_sum:
  fixes r0 :: "nat list"
  assumes d: "distinct po" and len: "length po = n" and rng: "\<forall>j<n. po ! j < length r0"
    and follow: "\<forall>i<n - 1. \<exists>j. i < j \<and> j < n \<and> po ! j = tree ! (po ! i)"
    and k: "k \<le> n - 1"
  shows "(\<Sum>j\<in>{k..<n}. fold (\<lambda>i r. r[tree ! (po ! i) := r ! (tree ! (po ! i)) + r ! (po ! i)]) [0..<k] r0 ! (po ! j))
     = (\<Sum>j\<in>{0..<n}. r0 ! (po ! j))"
  using k
proof (induction k)
  case 0
  then show ?case by simp
next
  case (Suc k)
  let ?step = "\<lambda>i r. r[tree ! (po ! i) := r ! (tree ! (po ! i)) + r ! (po ! i)]"
  let ?r = "fold ?step [0..<k] r0"
  have lr: "length ?r = length r0" using retained_fold_mono[of tree po "[0..<k]" r0] by simp
  from Suc.prems have kk: "k < n - 1" by simp
  with follow obtain j0 where j0: "k < j0" "j0 < n" "po ! j0 = tree ! (po ! k)" by blast
  have IH: "(\<Sum>j\<in>{k..<n}. ?r ! (po ! j)) = (\<Sum>j\<in>{0..<n}. r0 ! (po ! j))"
    using Suc.IH kk by simp
  have split: "(\<Sum>j\<in>{k..<n}. ?r ! (po ! j)) = ?r ! (po ! k) + (\<Sum>j\<in>{Suc k..<n}. ?r ! (po ! j))"
    using kk by (simp add: sum.atLeast_Suc_lessThan)
  have upd: "(\<Sum>j\<in>{Suc k..<n}. ?r[po ! j0 := ?r ! (po ! j0) + ?r ! (po ! k)] ! (po ! j)) + ?r ! (po ! j0)
      = (\<Sum>j\<in>{Suc k..<n}. ?r ! (po ! j)) + (?r ! (po ! j0) + ?r ! (po ! k))"
    by (rule sum_over_update[OF d]) (use j0 len rng lr in auto)
  have "fold ?step [0..<Suc k] r0 = ?r[po ! j0 := ?r ! (po ! j0) + ?r ! (po ! k)]"
    using j0(3) by simp
  then show ?case using upd split IH by simp
qed

lemma sum_nth_permutation:
  assumes "isPermutation po n"
  shows "(\<Sum>j\<in>{0..<n}. f (po ! j)) = sum_list (map f [0..<n])"
proof -
  from assms have d: "distinct po" and s: "set po = {0..<n}" by (auto simp: isPermutation_def)
  have len: "length po = n" using distinct_card[OF d] s by simp
  have "(\<Sum>j\<in>{0..<n}. f (po ! j)) = (\<Sum>j\<in>{0..<n}. map f po ! j)"
    using len by (intro sum.cong) simp_all
  also have "\<dots> = sum_list (map f po)"
    using sum_list_sum_nth[of "map f po"] len by simp
  also have "\<dots> = sum f (set po)" by (rule sum_list_distinct_conv_sum_set[OF d])
  also have "\<dots> = sum_list (map f [0..<n])"
    using s sum_list_distinct_conv_sum_set[of "[0..<n]" f] by simp
  finally show ?thesis .
qed

text \<open>
  \<^verbatim>\<open>calculateRetainedSizes\<close> on a \<^verbatim>\<open>retainedSizes\<close> array of \<^verbatim>\<open>nodeCount\<close> elements:
  every retained size is at least the self size, and the last node of the order gets
  the sum of all self sizes when the order holds every ordinal once and every other
  node has its dominator later in the order.
\<close>

lemma calculateRetainedSizes_sum:
  assumes len: "length (retainedSizes s) = nodeCount s"
  shows "(\<forall>v<nodeCount s. nodeSelfSize s (v * nodeFieldCount s)
            \<le> retainedSizes (calculateRetainedSizes s po2n) ! v)
    \<and> (0 < nodeCount s \<and> isPermutation po2n (nodeCount s) \<and> dominatorsFollow s po2n \<longrightarrow>
         retainedSizes (calculateRetainedSizes s po2n) ! (po2n ! (nodeCount s - 1)) = selfSizeSum s)"
proof -
  let ?n = "nodeCount s"
  let ?self = "\<lambda>v. nodeSelfSize s (v * nodeFieldCount s)"
  let ?r0 = "fold (\<lambda>v r. r[v := ?self v]) [0..<?n] (retainedSizes s)"
  let ?step = "\<lambda>i r. r[dominatorsTree s ! (po2n ! i) := r ! (dominatorsTree s ! (po2n ! i)) + r ! (po2n ! i)]"
  let ?r1 = "fold ?step [0..<?n - 1] ?r0"
  have res: "retainedSizes (calculateRetainedSizes s po2n) = ?r1"
    by (simp add: calculateRetainedSizes_def Let_def)
  have r0: "length ?r0 = ?n" "\<forall>v<?n. ?r0 ! v = ?self v"
    using fold_store_nth[of ?n "retainedSizes s" ?self] len by simp_all
  have mono: "\<forall>x<?n. ?r0 ! x \<le> ?r1 ! x"
    using retained_fold_mono[of "dominatorsTree s" po2n "[0..<?n - 1]" ?r0] r0(1) by simp
  have first: "\<forall>v<?n. ?self v \<le> ?r1 ! v"
    using mono r0(2) by simp
  have second: "?r1 ! (po2n ! (?n - 1)) = selfSizeSum s"
    if False: "?n \<noteq> 0" and perm: "isPermutation po2n ?n" and fol: "dominatorsFollow s po2n"
  proof -
    from perm have d: "distinct po2n" and st: "set po2n = {0..<?n}" by (auto simp: isPermutation_def)
    have lpo: "length po2n = ?n" using distinct_card[OF d] st by simp
    have rng: "\<forall>j<?n. po2n ! j < length ?r0"
      using st lpo r0(1) by (metis atLeastLessThan_iff nth_mem)
    have follow: "\<forall>i<?n - 1. \<exists>j. i < j \<and> j < ?n \<and> po2n ! j = dominatorsTree s ! (po2n ! i)"
    proof (intro allI impI)
      fix i assume "i < ?n - 1"
      then have "i \<in> set [0..<?n - 1]" by simp
      with fol have "\<exists>j\<in>set [i + 1..<?n]. po2n ! j = dominatorsTree s ! (po2n ! i)"
        unfolding dominatorsFollow_def list_all_iff list_ex_iff by blast
      then obtain j where "j \<in> {Suc i..<?n}" "po2n ! j = dominatorsTree s ! (po2n ! i)"
        by auto
      then show "\<exists>j. i < j \<and> j < ?n \<and> po2n ! j = dominatorsTree s ! (po2n ! i)"
        by (intro exI[of _ j]) simp
    qed
    have "(\<Sum>j\<in>{?n - 1..<?n}. ?r1 ! (po2n ! j)) = (\<Sum>j\<in>{0..<?n}. ?r0 ! (po2n ! j))"
      by (rule retained_fold_sum[OF d lpo rng follow]) simp
    moreover have "{?n - 1..<?n} = {?n - 1}" using False by auto
    moreover have "(\<Sum>j\<in>{0..<?n}. ?r0 ! (po2n ! j)) = (\<Sum>j\<in>{0..<?n}. ?self (po2n ! j))"
      using rng r0 by (intro sum.cong) auto
    ultimately have "?r1 ! (po2n ! (?n - 1)) = (\<Sum>j\<in>{0..<?n}. ?self (po2n ! j))" by simp
    then show ?thesis
      using sum_nth_permutation[OF perm, of ?self] by (simp add: selfSizeSum_def)
  qed
  show ?thesis using first second res by simp
qed

text \<open>
  Claim C1 fails on the orphan-value snapshot. \<^verbatim>\<open>initialize()\<close> completes; the value
  (ordinal 2) and the object it holds (ordinal 3) get their post-order indexes in the
  last block of \<^verbatim>\<open>buildPostOrderIndex\<close>, in ordinal order; the object is therefore
  added to its dominator, the value, after the value was added to the root. The root
  retains 30 bytes, the value 60, and the self sizes add up to 70.
\<close>

theorem initialize_retained_root_divergence:
  "initialize orphanValueSnapshot = Some (Inr ovFinal)
   \<and> retainedSizes ovFinal ! rootNodeOrdinal ovFinal = 30
   \<and> retainedSizes ovFinal ! 2 = 60
   \<and> selfSizeSum ovFinal = 70"
proof -
  have "retainedSizes ovFinal ! rootNodeOrdinal ovFinal = 30" by code_simp
  moreover have "retainedSizes ovFinal ! 2 = 60" by code_simp
  moreover have "selfSizeSum ovFinal = 70" by code_simp
  ultimately show ?thesis using ov_initialize by simp
qed

section \<open>Distances\<close>
























section \<open>DOM state propagation\<close>




























end
